theory Spec2Isabelle
  imports Main "HOL-Library.Sublist"
begin

section \<open>The werewolf agent (sdk/agent.py, sdk/game_types.py)\<close>

text \<open>
  The agent of one player seat: it reads the game from a backend, asks a language model
  for a speech or a decision, parses the reply and submits the action. The backend, the
  model client and Python's random source are outside the repository; they are taken as
  arbitrary step functions on an outside state, and every call to them is logged.

  Python strings are modelled as lists of code points below 256 (\<^typ>\<open>char\<close> read
  as a code point, not as a byte): on this range \<open>str.split\<close>, \<open>str.isdigit\<close>,
  \<open>str.lower\<close> and \<open>int\<close> are written out below as CPython defines them.
\<close>

subsection \<open>Python's string primitives\<close>

text \<open>\<open>str.isspace\<close> on one code point: the blanks that \<open>str.split()\<close> separates at.\<close>

definition isspace_chr :: "char \<Rightarrow> bool" where
  "isspace_chr c = (let n = (of_char c :: nat) in
     (9 \<le> n \<and> n \<le> 13) \<or> (28 \<le> n \<and> n \<le> 32) \<or> n = 133 \<or> n = 160)"

text \<open>
  \<open>str.isdigit\<close> on one code point: the decimal digits and, below 256, the superscript
  digits U+00B2, U+00B3 and U+00B9, which are digits for \<open>isdigit\<close> but not for \<open>int\<close>.
\<close>

definition isdecimal_chr :: "char \<Rightarrow> bool" where
  "isdecimal_chr c = (let n = (of_char c :: nat) in 48 \<le> n \<and> n \<le> 57)"

definition isdigit_chr :: "char \<Rightarrow> bool" where
  "isdigit_chr c = (let n = (of_char c :: nat) in
     (48 \<le> n \<and> n \<le> 57) \<or> n = 178 \<or> n = 179 \<or> n = 185)"

definition isdigit :: "string \<Rightarrow> bool" where
  "isdigit s = (s \<noteq> [] \<and> list_all isdigit_chr s)"

text \<open>\<open>str.lower\<close>: the cased code points below 256 and their lower-case forms.\<close>

definition lower_table :: "(char \<times> char) list" where
  "lower_table =
     zip ''ABCDEFGHIJKLMNOPQRSTUVWXYZ'' ''abcdefghijklmnopqrstuvwxyz'' @
     zip [CHR 0xC0, CHR 0xC1, CHR 0xC2, CHR 0xC3, CHR 0xC4, CHR 0xC5, CHR 0xC6, CHR 0xC7,
          CHR 0xC8, CHR 0xC9, CHR 0xCA, CHR 0xCB, CHR 0xCC, CHR 0xCD, CHR 0xCE, CHR 0xCF,
          CHR 0xD0, CHR 0xD1, CHR 0xD2, CHR 0xD3, CHR 0xD4, CHR 0xD5, CHR 0xD6,
          CHR 0xD8, CHR 0xD9, CHR 0xDA, CHR 0xDB, CHR 0xDC, CHR 0xDD, CHR 0xDE]
         [CHR 0xE0, CHR 0xE1, CHR 0xE2, CHR 0xE3, CHR 0xE4, CHR 0xE5, CHR 0xE6, CHR 0xE7,
          CHR 0xE8, CHR 0xE9, CHR 0xEA, CHR 0xEB, CHR 0xEC, CHR 0xED, CHR 0xEE, CHR 0xEF,
          CHR 0xF0, CHR 0xF1, CHR 0xF2, CHR 0xF3, CHR 0xF4, CHR 0xF5, CHR 0xF6,
          CHR 0xF8, CHR 0xF9, CHR 0xFA, CHR 0xFB, CHR 0xFC, CHR 0xFD, CHR 0xFE]"

definition lower_chr :: "char \<Rightarrow> char" where
  "lower_chr c = (case map_of lower_table c of Some d \<Rightarrow> d | None \<Rightarrow> c)"

definition lower :: "string \<Rightarrow> string" where
  "lower s = map lower_chr s"

text \<open>The operator \<open>sub in s\<close> on strings: \<open>sub\<close> occurs in \<open>s\<close> as a contiguous run.\<close>

fun str_in :: "string \<Rightarrow> string \<Rightarrow> bool" where
  "str_in sub [] = (sub = [])"
| "str_in sub (c # cs) = (prefix sub (c # cs) \<or> str_in sub cs)"

text \<open>
  \<open>str.split()\<close> without arguments: the maximal runs of non-blank code points, in
  order; \<open>tok\<close> is the run being read.
\<close>

fun split_from :: "string \<Rightarrow> string \<Rightarrow> string list" where
  "split_from tok [] = (if tok = [] then [] else [tok])"
| "split_from tok (c # cs) =
     (if isspace_chr c then (if tok = [] then [] else [tok]) @ split_from [] cs
      else split_from (tok @ [c]) cs)"

definition split :: "string \<Rightarrow> string list" where
  "split s = split_from [] s"

text \<open>
  Exceptions are values. Every exception of the model is an instance of Python's
  \<open>Exception\<close>; the constructor is its class as far as the source tells classes apart
  (\<open>except ValueError\<close>), the string is \<open>str(e)\<close>.
\<close>

datatype exn = ValueError string | KeyError string | Exception string

fun exn_str :: "exn \<Rightarrow> string" where
  "exn_str (ValueError m) = m"
| "exn_str (KeyError m) = m"
| "exn_str (Exception m) = m"

text \<open>
  \<open>int(s)\<close> on a token that passed \<open>isdigit\<close> (the only place the source calls it):
  the decimal value when every code point is a decimal digit, ValueError otherwise.
  The interpreter's optional cap on the number of digits is not modelled.
\<close>

definition digit_val :: "char \<Rightarrow> nat" where
  "digit_val c = of_char c - 48"

definition dec_value :: "string \<Rightarrow> int" where
  "dec_value s = int (foldl (\<lambda>a c. 10 * a + digit_val c) 0 s)"

definition py_int :: "string \<Rightarrow> exn + int" where
  "py_int s =
     (if s \<noteq> [] \<and> list_all isdecimal_chr s
      then Inr (dec_value s)
      else Inl (ValueError (''invalid literal for int() with base 10: '' @ [CHR 0x27] @ s @ [CHR 0x27])))"

text \<open>
  The comprehension \<open>[int(s) for s in response.split() if s.isdigit()]\<close>: it converts
  every qualifying token, in order, and raises at the first one \<open>int\<close> rejects.
\<close>

fun int_each :: "string list \<Rightarrow> exn + int list" where
  "int_each [] = Inr []"
| "int_each (t # ts) =
     (case py_int t of
        Inl e \<Rightarrow> Inl e
      | Inr n \<Rightarrow> (case int_each ts of Inl e \<Rightarrow> Inl e | Inr ns \<Rightarrow> Inr (n # ns)))"

definition numbers_of :: "string \<Rightarrow> exn + int list" where
  "numbers_of response = int_each (filter isdigit (split response))"

text \<open>\<open>str(n)\<close> of an integer, and \<open>str(xs)\<close> of a list of integers.\<close>

definition digit_chr :: "nat \<Rightarrow> char" where
  "digit_chr d = ''0123456789'' ! d"

fun str_nat :: "nat \<Rightarrow> string" where
  "str_nat n =
     (if n < 10 then [digit_chr n] else str_nat (n div 10) @ [digit_chr (n mod 10)])"

definition str_int :: "int \<Rightarrow> string" where
  "str_int i = (if i < 0 then ''-'' @ str_nat (nat (- i)) else str_nat (nat i))"

fun join :: "string \<Rightarrow> string list \<Rightarrow> string" where
  "join sep [] = []"
| "join sep [s] = s"
| "join sep (s # t # ts) = s @ sep @ join sep (t # ts)"

definition str_int_list :: "int list \<Rightarrow> string" where
  "str_int_list xs = ''['' @ join '', '' (map str_int xs) @ '']''"

declare str_nat.simps [simp del]

subsection \<open>The data of sdk/game_types.py\<close>

datatype role = VILLAGER | WEREWOLF | WITCH | SEER | HUNTER

fun role_value :: "role \<Rightarrow> string" where
  "role_value VILLAGER = ''villager''"
| "role_value WEREWOLF = ''werewolf''"
| "role_value WITCH = ''witch''"
| "role_value SEER = ''seer''"
| "role_value HUNTER = ''hunter''"

text \<open>
  The typed dictionaries are records. A key that may be missing is an \<open>option\<close> field,
  \<open>None\<close> for the missing key; \<open>game_phase\<close> holds Python's \<open>None\<close> as \<open>None\<close>.
  Field names carry a prefix where two dictionaries share a key.
\<close>

record speech_record =
  sp_player_id :: "int option"
  sp_content :: "string option"
  sp_round :: int
  sp_phase :: string

record death_record =
  d_player_id :: int
  d_round :: int
  d_cause :: string

record game_state =
  gs_phase :: "string option"
  gs_round :: "int option"
  gs_alive_players :: "int list option"
  gs_death_info :: "death_record list option"

record knowledge_base =
  game_phase :: "string option"
  current_round :: int
  history_speeches :: "speech_record list"
  vote_history :: "(string \<times> int) list list"
  death_info :: "death_record list"
  alive_players :: "int list option"

record action_result =
  action_type :: string
  a_success :: bool
  a_message :: "string option"
  a_content :: "string option"
  a_vote_target :: "int option"

record skill_result =
  success :: bool
  message :: string
  r_target_id :: "int option"
  check_result :: "string option"

record skill_params =
  p_action :: "string option"
  p_target_id :: "int option"

text \<open>The context dictionary handed to the model client, with the keys the code reads.\<close>

record ctx =
  c_player_id :: "int option"
  c_role :: "string option"
  c_game_phase :: "string option option"
  c_speech_type :: "string option"
  c_history :: "speech_record list option"
  c_alive_players :: "int list option"
  c_death_info :: "death_record list option"

text \<open>The keyword arguments of \<open>act\<close>.\<close>

record kwargs =
  kw_speech_type :: "string option"
  kw_target_id :: "int option"
  kw_skill_params :: "skill_params option"

subsection \<open>The outside world\<close>

text \<open>
  The backend and the model client are objects with state of their own: a method is a
  step on the outside state \<open>'x\<close> that returns a value or raises. The log \<open>calls\<close>
  records every call the agent makes to either of them, in order. The collaborators
  hold no reference to the agent: they cannot change its fields behind its back.
\<close>

datatype call =
    GetSpeechHistory int
  | GetGameState int
  | SubmitSpeech int string
  | SubmitVote int int
  | UpdateAgentAction int action_result
  | WerewolfKill int int
  | WitchSave int "int option"
  | WitchPoison int "int option"
  | SeerCheck int int
  | HunterShoot int int
  | Generate string

record 'x world =
  outside :: 'x
  calls :: "call list"

record 'x backend_interface =
  get_speech_history :: "int \<Rightarrow> 'x \<Rightarrow> (exn + speech_record list) \<times> 'x"
  get_game_state :: "int \<Rightarrow> 'x \<Rightarrow> (exn + game_state) \<times> 'x"
  submit_speech :: "int \<Rightarrow> string \<Rightarrow> 'x \<Rightarrow> (exn + unit) \<times> 'x"
  submit_vote :: "int \<Rightarrow> int \<Rightarrow> 'x \<Rightarrow> (exn + unit) \<times> 'x"
  update_agent_action :: "int \<Rightarrow> action_result \<Rightarrow> 'x \<Rightarrow> (exn + unit) \<times> 'x"
  werewolf_kill :: "int \<Rightarrow> int \<Rightarrow> 'x \<Rightarrow> (exn + unit) \<times> 'x"
  witch_save :: "int \<Rightarrow> int option \<Rightarrow> 'x \<Rightarrow> (exn + unit) \<times> 'x"
  witch_poison :: "int \<Rightarrow> int option \<Rightarrow> 'x \<Rightarrow> (exn + unit) \<times> 'x"
  seer_check :: "int \<Rightarrow> int \<Rightarrow> 'x \<Rightarrow> (exn + string) \<times> 'x"
  hunter_shoot :: "int \<Rightarrow> int \<Rightarrow> 'x \<Rightarrow> (exn + unit) \<times> 'x"

text \<open>
  Two library functions are parameters: \<open>json.dumps\<close> of the full context (role, player
  id, knowledge base, call context), which may raise, and the random source behind
  \<open>random.choice\<close>, which for a length \<open>n\<close> yields an index.
\<close>

record 'x pylib =
  json_dumps :: "string \<Rightarrow> int \<Rightarrow> knowledge_base \<Rightarrow> ctx \<Rightarrow> exn + string"
  randbelow :: "nat \<Rightarrow> 'x \<Rightarrow> nat \<times> 'x"

record 'x agent =
  player_id :: int
  role :: role
  api_client :: "(string \<Rightarrow> 'x \<Rightarrow> (exn + string) \<times> 'x) option"
  is_alive :: bool
  vote_target :: "int option"
  skill_used :: bool
  knowledge_base :: knowledge_base

text \<open>\<open>Agent.__init__\<close>: the knowledge base starts without the key \<open>alive_players\<close>.\<close>

definition init :: "int \<Rightarrow> role \<Rightarrow> (string \<Rightarrow> 'x \<Rightarrow> (exn + string) \<times> 'x) option \<Rightarrow> 'x agent" where
  "init pid r client =
     \<lparr>player_id = pid, role = r, api_client = client, is_alive = True, vote_target = None,
      skill_used = False,
      knowledge_base = \<lparr>game_phase = None, current_round = 0, history_speeches = [],
        vote_history = [], death_info = [], alive_players = None\<rparr>\<rparr>"

subsection \<open>Methods as programs on the agent and the world\<close>

text \<open>
  A method runs on the pair of the agent's fields and the world, and ends with a value
  or with an exception; the changes made before a raise stay, as in Python.
\<close>

type_synonym 'x st = "'x agent \<times> 'x world"

type_synonym ('a, 'x) prog = "'x st \<Rightarrow> (exn + 'a) \<times> 'x st"

definition ret :: "'a \<Rightarrow> ('a, 'x) prog" where
  "ret v = (\<lambda>s. (Inr v, s))"

definition raise :: "exn \<Rightarrow> ('a, 'x) prog" where
  "raise e = (\<lambda>s. (Inl e, s))"

definition lift :: "exn + 'a \<Rightarrow> ('a, 'x) prog" where
  "lift r = (\<lambda>s. (r, s))"

definition pbind :: "('a, 'x) prog \<Rightarrow> ('a \<Rightarrow> ('b, 'x) prog) \<Rightarrow> ('b, 'x) prog" where
  "pbind m f = (\<lambda>s. case m s of (Inl e, s') \<Rightarrow> (Inl e, s') | (Inr v, s') \<Rightarrow> f v s')"

text \<open>\<open>try: m  except Exception as e: h e\<close>.\<close>

definition try_except :: "('a, 'x) prog \<Rightarrow> (exn \<Rightarrow> ('a, 'x) prog) \<Rightarrow> ('a, 'x) prog" where
  "try_except m h = (\<lambda>s. case m s of (Inl e, s') \<Rightarrow> h e s' | (Inr v, s') \<Rightarrow> (Inr v, s'))"

text \<open>\<open>try: m  except ValueError: h\<close>: any other exception goes on.\<close>

definition try_except_ValueError :: "('a, 'x) prog \<Rightarrow> ('a, 'x) prog \<Rightarrow> ('a, 'x) prog" where
  "try_except_ValueError m h =
     (\<lambda>s. case m s of (Inl (ValueError msg), s') \<Rightarrow> h s' | r \<Rightarrow> r)"

definition self :: "('x agent, 'x) prog" where
  "self = (\<lambda>s. (Inr (fst s), s))"

definition set_self :: "('x agent \<Rightarrow> 'x agent) \<Rightarrow> (unit, 'x) prog" where
  "set_self f = (\<lambda>s. (Inr (), (f (fst s), snd s)))"

definition set_kb :: "(knowledge_base \<Rightarrow> knowledge_base) \<Rightarrow> (unit, 'x) prog" where
  "set_kb f = set_self (\<lambda>a. a\<lparr>knowledge_base := f (knowledge_base a)\<rparr>)"

text \<open>A call to the backend or to the model client: one step outside, one log entry.\<close>

definition call_out :: "call \<Rightarrow> ('x \<Rightarrow> (exn + 'a) \<times> 'x) \<Rightarrow> ('a, 'x) prog" where
  "call_out c f =
     (\<lambda>s. case f (outside (snd s)) of
        (r, x) \<Rightarrow> (r, (fst s, \<lparr>outside = x, calls = calls (snd s) @ [c]\<rparr>)))"

text \<open>
  \<open>random.choice(xs)\<close>: IndexError on the empty list, else the element at the index the
  random source gives for \<open>len(xs)\<close> (an index below \<open>len(xs)\<close> in Python; \<open>mod\<close> keeps
  an arbitrary source in range).
\<close>

definition random_choice :: "'x pylib \<Rightarrow> 'a list \<Rightarrow> ('a, 'x) prog" where
  "random_choice lib xs =
     (if xs = [] then raise (Exception ''Cannot choose from an empty sequence'')
      else (\<lambda>s. case randbelow lib (length xs) (outside (snd s)) of
              (k, x) \<Rightarrow> (Inr (xs ! (k mod length xs)), (fst s, (snd s)\<lparr>outside := x\<rparr>))))"

subsection \<open>Reply parsing\<close>

definition first_or :: "int \<Rightarrow> int list \<Rightarrow> int" where
  "first_or d numbers = (case numbers of [] \<Rightarrow> d | n # _ \<Rightarrow> n)"

text \<open>\<open>_parse_number_from_response\<close>: ValueError is caught and gives 0.\<close>

definition parse_number_from_response :: "string \<Rightarrow> exn + int" where
  "parse_number_from_response response =
     (case numbers_of response of
        Inr numbers \<Rightarrow> Inr (first_or 0 numbers)
      | Inl (ValueError msg) \<Rightarrow> Inr 0
      | Inl e \<Rightarrow> Inl e)"

text \<open>\<open>_parse_witch_decision\<close>: no handler around the conversions.\<close>

definition parse_witch_decision :: "string \<Rightarrow> exn + (string \<times> int)" where
  "parse_witch_decision response =
     (let response_lower = lower response in
      if str_in ''save'' response_lower then
        (case numbers_of response of
           Inl e \<Rightarrow> Inl e
         | Inr numbers \<Rightarrow> Inr (''save'', first_or 0 numbers))
      else if str_in ''poison'' response_lower then
        (case numbers_of response of
           Inl e \<Rightarrow> Inl e
         | Inr numbers \<Rightarrow> Inr (''poison'', first_or 0 numbers))
      else Inr (''abstain'', 0))"

text \<open>
  \<open>_parse_vote_decision\<close>: the guarded block returns the first number when there is
  one (\<open>Some\<close>); with no number, or after a ValueError, control reaches the random pick.
\<close>

text \<open>\<open>[p for p in alive_players if p != self.player_id]\<close>.\<close>

definition others :: "int \<Rightarrow> int list \<Rightarrow> int list" where
  "others pid ps = filter (\<lambda>p. p \<noteq> pid) ps"

definition default_roster :: "int list" where
  "default_roster = [1, 2, 3, 4, 5, 6, 7, 8, 9]"

definition parse_vote_decision :: "'x pylib \<Rightarrow> string \<Rightarrow> (int, 'x) prog" where
  "parse_vote_decision lib ai_response =
     pbind (try_except_ValueError
              (pbind (lift (numbers_of ai_response))
                 (\<lambda>numbers. ret (case numbers of [] \<Rightarrow> None | n # _ \<Rightarrow> Some n)))
              (ret None))
       (\<lambda>early. case early of
          Some n \<Rightarrow> ret n
        | None \<Rightarrow>
            pbind self (\<lambda>a.
              let alive_players =
                    (case alive_players (knowledge_base a) of
                       None \<Rightarrow> default_roster | Some ps \<Rightarrow> ps);
                  other_players = others (player_id a) alive_players
              in if other_players \<noteq> [] then random_choice lib other_players else ret (- 1)))"

subsection \<open>Prompts\<close>

definition str_phase :: "string option \<Rightarrow> string" where
  "str_phase ph = (case ph of None \<Rightarrow> ''None'' | Some p \<Rightarrow> p)"

definition str_target :: "int option \<Rightarrow> string" where
  "str_target t = (case t of None \<Rightarrow> ''None'' | Some n \<Rightarrow> str_int n)"

text \<open>\<open>context[key]\<close>: KeyError when the key is missing.\<close>

definition index :: "string \<Rightarrow> 'a option \<Rightarrow> ('a, 'x) prog" where
  "index key v =
     (case v of None \<Rightarrow> raise (KeyError ([CHR 0x27] @ key @ [CHR 0x27])) | Some x \<Rightarrow> ret x)"

definition format_speech_history :: "speech_record list \<Rightarrow> string" where
  "format_speech_history history =
     join ''\<newline>''
       (map (\<lambda>speech.
               ''Player '' @ (case sp_player_id speech of None \<Rightarrow> ''?'' | Some i \<Rightarrow> str_int i)
               @ '': '' @ (case sp_content speech of None \<Rightarrow> [] | Some c \<Rightarrow> c))
            history)"

definition role_descriptions :: "(string \<times> string) list" where
  "role_descriptions =
     [(role_value VILLAGER, ''You are a villager, you need to find the werewolves''),
      (role_value WEREWOLF,
         ''You are a werewolf, disguise as a good player and protect your teammates''),
      (role_value WITCH, ''You are a witch, guide the good faction with your speech''),
      (role_value SEER, ''You are a seer, carefully reveal check information''),
      (role_value HUNTER, ''You are a hunter, speak cautiously to avoid being pushed out'')]"

definition speech_prompt_tail :: string where
  "speech_prompt_tail =
     ''\<newline>\<newline>Please make a speech based on the above information. Requirements:\<newline>''
     @ ''1. Stay consistent with your role identity\<newline>''
     @ ''2. Analyze the situation and provide reasonable deductions\<newline>''
     @ ''3. Speak naturally like a human player\<newline>''
     @ ''4. Keep the length between 50-150 words\<newline>\<newline>Your speech:\<newline>''"

definition construct_speech_prompt :: "ctx \<Rightarrow> (string, 'x) prog" where
  "construct_speech_prompt context =
     (let r = (case c_role context of None \<Rightarrow> [] | Some v \<Rightarrow> v);
          role_desc = (case map_of role_descriptions r of None \<Rightarrow> r | Some d \<Rightarrow> d)
      in pbind self (\<lambda>a.
         pbind (index ''game_phase'' (c_game_phase context)) (\<lambda>phase.
         pbind (index ''alive_players'' (c_alive_players context)) (\<lambda>alive.
         pbind (index ''speech_type'' (c_speech_type context)) (\<lambda>speech_type.
         pbind (index ''history'' (c_history context)) (\<lambda>history.
         ret (''\<newline>You are playing a Werewolf game.\<newline>Your role: '' @ role_desc
              @ ''\<newline>Player ID: '' @ str_int (player_id a)
              @ ''\<newline>Game phase: '' @ str_phase phase
              @ ''\<newline>Alive players: '' @ str_int_list alive
              @ ''\<newline>Speech type: '' @ speech_type
              @ ''\<newline>\<newline>Recent speech history:\<newline>'' @ format_speech_history history
              @ speech_prompt_tail)))))))"

definition construct_vote_prompt :: "ctx \<Rightarrow> (string, 'x) prog" where
  "construct_vote_prompt context =
     pbind (index ''role'' (c_role context)) (\<lambda>r.
     pbind self (\<lambda>a.
     pbind (index ''alive_players'' (c_alive_players context)) (\<lambda>alive.
     pbind (index ''game_phase'' (c_game_phase context)) (\<lambda>phase.
     ret (''\<newline>As a '' @ r @ '' (Player '' @ str_int (player_id a)
          @ ''), decide who to vote for based on the current situation.''
          @ ''\<newline>Alive players: '' @ str_int_list alive
          @ ''\<newline>Game phase: '' @ str_phase phase
          @ ''\<newline>\<newline>Analyze and return only the player ID number you want to vote for.''
          @ ''\<newline>Vote target:\<newline>'')))))"

definition last_n :: "nat \<Rightarrow> 'a list \<Rightarrow> 'a list" where
  "last_n n xs = drop (length xs - n) xs"

definition kb_alive_or_empty :: "knowledge_base \<Rightarrow> int list" where
  "kb_alive_or_empty kb = (case alive_players kb of None \<Rightarrow> [] | Some ps \<Rightarrow> ps)"

definition get_skill_context :: "'x agent \<Rightarrow> ctx" where
  "get_skill_context a =
     \<lparr>c_player_id = Some (player_id a), c_role = Some (role_value (role a)),
      c_game_phase = None, c_speech_type = None,
      c_history = Some (last_n 5 (history_speeches (knowledge_base a))),
      c_alive_players = Some (kb_alive_or_empty (knowledge_base a)),
      c_death_info = Some (death_info (knowledge_base a))\<rparr>"

definition construct_full_prompt :: "'x pylib \<Rightarrow> string \<Rightarrow> ctx \<Rightarrow> (string, 'x) prog" where
  "construct_full_prompt lib prompt context =
     pbind self (\<lambda>a.
     pbind (lift (json_dumps lib (role_value (role a)) (player_id a) (knowledge_base a) context))
       (\<lambda>dumped. ret (''Context: '' @ dumped @ ''\<newline>\<newline>Question: '' @ prompt)))"

subsection \<open>The model client and its simulated stand-in\<close>

text \<open>
  \<open>_simulate_ai_response\<close>: the three canned answers are built first, so the random
  pick for the vote answer is made whatever the prompt says.
\<close>

definition simulate_ai_response :: "'x pylib \<Rightarrow> string \<Rightarrow> ctx \<Rightarrow> (string, 'x) prog" where
  "simulate_ai_response lib prompt context =
     pbind self (\<lambda>a.
       let alive_players =
             (case c_alive_players context of None \<Rightarrow> default_roster | Some ps \<Rightarrow> ps);
           other_players = others (player_id a) alive_players
       in pbind (if other_players \<noteq> [] then random_choice lib other_players else ret 1)
            (\<lambda>picked.
               let speech = ''I am player '' @ str_int (player_id a) @ '', as a ''
                      @ role_value (role a)
                      @ '', I think we need to carefully analyze the current situation.'';
                   vote = str_int picked;
                   skill = ''Based on the current situation, I choose to act.'';
                   prompt_lower = lower prompt
               in if str_in ''speech'' prompt_lower \<or> str_in ''speak'' prompt_lower
                  then ret speech
                  else if str_in ''vote'' prompt_lower then ret vote
                  else ret skill))"

definition interact_with_ai :: "'x pylib \<Rightarrow> string \<Rightarrow> ctx \<Rightarrow> (string, 'x) prog" where
  "interact_with_ai lib prompt context =
     pbind self (\<lambda>a.
       case api_client a of
         None \<Rightarrow> simulate_ai_response lib prompt context
       | Some client \<Rightarrow>
           try_except
             (pbind (construct_full_prompt lib prompt context) (\<lambda>full_prompt.
                call_out (Generate full_prompt) (client full_prompt)))
             (\<lambda>e. simulate_ai_response lib prompt context))"

subsection \<open>State refresh\<close>

definition get_history_speeches :: "'x backend_interface \<Rightarrow> (speech_record list, 'x) prog" where
  "get_history_speeches backend_interface =
     try_except
       (pbind self (\<lambda>a.
        pbind (call_out (GetSpeechHistory (player_id a))
                 (get_speech_history backend_interface (player_id a))) (\<lambda>history.
        pbind (set_kb (\<lambda>kb. kb\<lparr>history_speeches := history\<rparr>)) (\<lambda>_.
        ret history))))
       (\<lambda>e. ret [])"

definition empty_game_state :: game_state where
  "empty_game_state =
     \<lparr>gs_phase = None, gs_round = None, gs_alive_players = None, gs_death_info = None\<rparr>"

definition get_current_state :: "'x backend_interface \<Rightarrow> (game_state, 'x) prog" where
  "get_current_state backend_interface =
     try_except
       (pbind self (\<lambda>a.
        pbind (call_out (GetGameState (player_id a))
                 (get_game_state backend_interface (player_id a))) (\<lambda>state.
        pbind (set_kb (\<lambda>kb. kb\<lparr>game_phase := gs_phase state\<rparr>)) (\<lambda>_.
        pbind (set_kb (\<lambda>kb. kb\<lparr>current_round :=
                 (case gs_round state of None \<Rightarrow> 0 | Some r \<Rightarrow> r)\<rparr>)) (\<lambda>_.
        pbind (set_kb (\<lambda>kb. kb\<lparr>alive_players :=
                 Some (case gs_alive_players state of None \<Rightarrow> [] | Some ps \<Rightarrow> ps)\<rparr>)) (\<lambda>_.
        pbind (set_kb (\<lambda>kb. kb\<lparr>death_info :=
                 (case gs_death_info state of None \<Rightarrow> [] | Some ds \<Rightarrow> ds)\<rparr>)) (\<lambda>_.
        ret state)))))))
       (\<lambda>e. ret empty_game_state)"

subsection \<open>speak and vote\<close>

definition speak :: "'x pylib \<Rightarrow> 'x backend_interface \<Rightarrow> string \<Rightarrow> (string, 'x) prog" where
  "speak lib backend_interface speech_type =
     pbind self (\<lambda>a0.
       if \<not> is_alive a0 then ret []
       else
         pbind (get_current_state backend_interface) (\<lambda>_.
         pbind (get_history_speeches backend_interface) (\<lambda>history.
         pbind self (\<lambda>a.
           let context =
                 \<lparr>c_player_id = Some (player_id a), c_role = Some (role_value (role a)),
                  c_game_phase = Some (game_phase (knowledge_base a)),
                  c_speech_type = Some speech_type,
                  c_history = Some (last_n 10 history),
                  c_alive_players = Some (kb_alive_or_empty (knowledge_base a)),
                  c_death_info = None\<rparr>
           in pbind (construct_speech_prompt context) (\<lambda>prompt.
              pbind (interact_with_ai lib prompt context) (\<lambda>speech_content.
              try_except
                (pbind (call_out (SubmitSpeech (player_id a) speech_content)
                          (submit_speech backend_interface (player_id a) speech_content))
                   (\<lambda>_. ret speech_content))
                (\<lambda>e. ret speech_content)))))))"

definition vote :: "'x pylib \<Rightarrow> 'x backend_interface \<Rightarrow> int option \<Rightarrow> (int, 'x) prog" where
  "vote lib backend_interface target_id =
     pbind self (\<lambda>a0.
       if \<not> is_alive a0 then ret (- 1)
       else
         pbind (case target_id of
                  Some t \<Rightarrow> ret t
                | None \<Rightarrow>
                    (let context =
                           \<lparr>c_player_id = Some (player_id a0),
                            c_role = Some (role_value (role a0)),
                            c_game_phase = Some (game_phase (knowledge_base a0)),
                            c_speech_type = None,
                            c_history = Some (last_n 5 (history_speeches (knowledge_base a0))),
                            c_alive_players = Some (kb_alive_or_empty (knowledge_base a0)),
                            c_death_info = None\<rparr>
                     in pbind (construct_vote_prompt context) (\<lambda>prompt.
                        pbind (interact_with_ai lib prompt context) (\<lambda>ai_response.
                        parse_vote_decision lib ai_response))))
           (\<lambda>vote_target.
              pbind (set_self (\<lambda>a. a\<lparr>vote_target := Some vote_target\<rparr>)) (\<lambda>_.
              pbind self (\<lambda>a.
              try_except
                (pbind (call_out (SubmitVote (player_id a) vote_target)
                          (submit_vote backend_interface (player_id a) vote_target))
                   (\<lambda>_. ret vote_target))
                (\<lambda>e. ret vote_target)))))"

subsection \<open>Skills\<close>

definition skill_ok :: "string \<Rightarrow> int option \<Rightarrow> string option \<Rightarrow> skill_result" where
  "skill_ok msg tgt chk = \<lparr>success = True, message = msg, r_target_id = tgt, check_result = chk\<rparr>"

definition skill_failed :: "string \<Rightarrow> skill_result" where
  "skill_failed msg = \<lparr>success = False, message = msg, r_target_id = None, check_result = None\<rparr>"

text \<open>
  The target of the werewolf, the seer and the hunter: the one in \<open>skill_params\<close>, else
  the number parsed from the model's reply to the role's prompt. The three handlers
  open with these same lines, written once here.
\<close>

definition resolve_target :: "'x pylib \<Rightarrow> skill_params \<Rightarrow> string \<Rightarrow> (int, 'x) prog" where
  "resolve_target lib skill_params prompt =
     (case p_target_id skill_params of
        Some t \<Rightarrow> ret t
      | None \<Rightarrow>
          pbind self (\<lambda>a.
          pbind (interact_with_ai lib prompt (get_skill_context a)) (\<lambda>ai_response.
          lift (parse_number_from_response ai_response))))"

definition werewolf_prompt :: string where
  "werewolf_prompt =
     ''As a werewolf, choose a player to kill tonight. Return only the player ID number:''"

definition witch_prompt :: string where
  "witch_prompt =
     ''As a witch, decide whether to use antidote or poison. ''
     @ ''Return '' @ [CHR 0x27] @ ''save X'' @ [CHR 0x27] @ '' or '' @ [CHR 0x27] @ ''poison X''
     @ [CHR 0x27] @ '' or '' @ [CHR 0x27] @ ''abstain'' @ [CHR 0x27] @ '':''"

definition seer_prompt :: string where
  "seer_prompt = ''As a seer, choose a player to check. Return only the player ID number:''"

definition hunter_prompt :: string where
  "hunter_prompt =
     ''As a hunter, choose a player to shoot. Return only the player ID number (or 0 to not shoot):''"

definition use_werewolf_skill ::
  "'x pylib \<Rightarrow> 'x backend_interface \<Rightarrow> skill_params \<Rightarrow> (skill_result, 'x) prog" where
  "use_werewolf_skill lib backend_interface skill_params =
     pbind (resolve_target lib skill_params werewolf_prompt) (\<lambda>target_id.
     pbind self (\<lambda>a.
     try_except
       (pbind (call_out (WerewolfKill (player_id a) target_id)
                 (werewolf_kill backend_interface (player_id a) target_id))
          (\<lambda>_. ret (skill_ok (''Werewolf chose to kill player '' @ str_int target_id)
                       (Some target_id) None)))
       (\<lambda>e. ret (skill_failed (''Werewolf kill failed: '' @ exn_str e)))))"

definition use_witch_skill ::
  "'x pylib \<Rightarrow> 'x backend_interface \<Rightarrow> skill_params \<Rightarrow> (skill_result, 'x) prog" where
  "use_witch_skill lib backend_interface skill_params =
     pbind self (\<lambda>a.
     pbind (case p_action skill_params of
              Some act \<Rightarrow> ret (act, p_target_id skill_params)
            | None \<Rightarrow>
                pbind (interact_with_ai lib witch_prompt (get_skill_context a)) (\<lambda>ai_response.
                pbind (lift (parse_witch_decision ai_response)) (\<lambda>decision.
                ret (fst decision, Some (snd decision)))))
       (\<lambda>chosen.
          let action = fst chosen; target_id = snd chosen in
          try_except
            (if action = ''save'' then
               pbind (call_out (WitchSave (player_id a) target_id)
                        (witch_save backend_interface (player_id a) target_id))
                 (\<lambda>_. ret (skill_ok (''Witch used antidote to save player '' @ str_target target_id)
                              None None))
             else if action = ''poison'' then
               pbind (call_out (WitchPoison (player_id a) target_id)
                        (witch_poison backend_interface (player_id a) target_id))
                 (\<lambda>_. ret (skill_ok (''Witch used poison on player '' @ str_target target_id)
                              None None))
             else ret (skill_ok ''Witch chose not to use skill'' None None))
            (\<lambda>e. ret (skill_failed (''Witch skill failed: '' @ exn_str e)))))"

definition use_seer_skill ::
  "'x pylib \<Rightarrow> 'x backend_interface \<Rightarrow> skill_params \<Rightarrow> (skill_result, 'x) prog" where
  "use_seer_skill lib backend_interface skill_params =
     pbind (resolve_target lib skill_params seer_prompt) (\<lambda>target_id.
     pbind self (\<lambda>a.
     try_except
       (pbind (call_out (SeerCheck (player_id a) target_id)
                 (seer_check backend_interface (player_id a) target_id))
          (\<lambda>result. ret (skill_ok (''Seer checked player '' @ str_int target_id
                                     @ '', result is '' @ result)
                            None (Some result))))
       (\<lambda>e. ret (skill_failed (''Seer check failed: '' @ exn_str e)))))"

definition use_hunter_skill ::
  "'x pylib \<Rightarrow> 'x backend_interface \<Rightarrow> skill_params \<Rightarrow> (skill_result, 'x) prog" where
  "use_hunter_skill lib backend_interface skill_params =
     pbind (resolve_target lib skill_params hunter_prompt) (\<lambda>target_id.
     if target_id = 0 then ret (skill_ok ''Hunter chose not to shoot'' None None)
     else
       pbind self (\<lambda>a.
       try_except
         (pbind (call_out (HunterShoot (player_id a) target_id)
                   (hunter_shoot backend_interface (player_id a) target_id))
            (\<lambda>_. ret (skill_ok (''Hunter shot player '' @ str_int target_id)
                         (Some target_id) None)))
         (\<lambda>e. ret (skill_failed (''Hunter shoot failed: '' @ exn_str e)))))"

definition no_params :: skill_params where
  "no_params = \<lparr>p_action = None, p_target_id = None\<rparr>"

definition use_skill ::
  "'x pylib \<Rightarrow> 'x backend_interface \<Rightarrow> skill_params option \<Rightarrow> (skill_result, 'x) prog" where
  "use_skill lib backend_interface skill_params_opt =
     pbind self (\<lambda>a.
       if \<not> is_alive a \<or> skill_used a then ret (skill_failed ''Cannot use skill'')
       else
         let skill_params = (case skill_params_opt of None \<Rightarrow> no_params | Some p \<Rightarrow> p) in
         pbind (case role a of
                  WEREWOLF \<Rightarrow> use_werewolf_skill lib backend_interface skill_params
                | WITCH \<Rightarrow> use_witch_skill lib backend_interface skill_params
                | SEER \<Rightarrow> use_seer_skill lib backend_interface skill_params
                | HUNTER \<Rightarrow> use_hunter_skill lib backend_interface skill_params
                | VILLAGER \<Rightarrow> ret (skill_failed []))
           (\<lambda>skill_result.
              pbind (if success skill_result
                     then set_self (\<lambda>a. a\<lparr>skill_used := True\<rparr>) else ret ())
                (\<lambda>_. ret skill_result)))"

subsection \<open>act and update_status\<close>

text \<open>
  \<open>act\<close> keeps its result in a local dictionary that the guarded block fills in, and
  the one \<open>except\<close> clause writes the message into that dictionary as it stands when
  the exception arrives: untouched when the action itself raised, filled in when the
  report to the backend raised. \<open>act_dispatch\<close> is the chain of tests on the action
  type inside the guarded block, returning the dictionary as filled in; \<open>act_failed\<close> is
  the body of the \<open>except\<close> clause.
\<close>

definition act_failed :: "action_result \<Rightarrow> exn \<Rightarrow> (action_result, 'x) prog" where
  "act_failed result e = ret (result\<lparr>a_message := Some (''Action failed: '' @ exn_str e)\<rparr>)"

definition act_dispatch ::
  "'x pylib \<Rightarrow> 'x backend_interface \<Rightarrow> kwargs \<Rightarrow> action_result \<Rightarrow> (action_result, 'x) prog" where
  "act_dispatch lib backend_interface kw result =
     (if action_type result = ''speak'' then
        pbind (speak lib backend_interface
                 (case kw_speech_type kw of None \<Rightarrow> ''normal'' | Some t \<Rightarrow> t))
          (\<lambda>content. ret (result\<lparr>a_success := True, a_content := Some content\<rparr>))
      else if action_type result = ''vote'' then
        pbind (vote lib backend_interface (kw_target_id kw))
          (\<lambda>vote_target. ret (result\<lparr>a_success := True, a_vote_target := Some vote_target\<rparr>))
      else if action_type result = ''use_skill'' then
        pbind (use_skill lib backend_interface
                 (Some (case kw_skill_params kw of None \<Rightarrow> no_params | Some p \<Rightarrow> p)))
          (\<lambda>skill_result.
             ret (result\<lparr>a_success := success skill_result,
                         a_message := Some (message skill_result)\<rparr>))
      else ret result)"

definition act ::
  "'x pylib \<Rightarrow> 'x backend_interface \<Rightarrow> string \<Rightarrow> kwargs \<Rightarrow> (action_result, 'x) prog" where
  "act lib backend_interface act_type kw =
     (let result = \<lparr>action_type = act_type, a_success = False, a_message = None,
                     a_content = None, a_vote_target = None\<rparr>
      in try_except
           (pbind (act_dispatch lib backend_interface kw result) (\<lambda>filled.
              try_except
                (pbind self (\<lambda>a.
                 pbind (call_out (UpdateAgentAction (player_id a) filled)
                          (update_agent_action backend_interface (player_id a) filled))
                   (\<lambda>_. ret filled)))
                (act_failed filled)))
           (act_failed result))"

text \<open>\<open>update_status\<close>: the status dictionary maps keys to the flags' values.\<close>

definition update_status :: "(string \<rightharpoonup> bool) \<Rightarrow> 'x agent \<Rightarrow> 'x agent" where
  "update_status new_status a =
     (let a1 = (case new_status ''is_alive'' of None \<Rightarrow> a | Some v \<Rightarrow> a\<lparr>is_alive := v\<rparr>)
      in case new_status ''skill_used'' of None \<Rightarrow> a1 | Some v \<Rightarrow> a1\<lparr>skill_used := v\<rparr>)"

subsection \<open>Normal play\<close>

text \<open>
  Normal play is any sequence of calls of the agent's methods other than
  \<open>update_status\<close>. A call that raises leaves the state as it was at the raise.
\<close>

datatype play =
    Speak string
  | Vote "int option"
  | UseSkill "skill_params option"
  | Act string kwargs
  | GetCurrentState
  | GetHistorySpeeches
  | InteractWithAI string ctx

fun play_step :: "'x pylib \<Rightarrow> 'x backend_interface \<Rightarrow> 'x st \<Rightarrow> play \<Rightarrow> 'x st" where
  "play_step lib b s (Speak t) = snd (speak lib b t s)"
| "play_step lib b s (Vote t) = snd (vote lib b t s)"
| "play_step lib b s (UseSkill p) = snd (use_skill lib b p s)"
| "play_step lib b s (Act t kw) = snd (act lib b t kw s)"
| "play_step lib b s GetCurrentState = snd (get_current_state b s)"
| "play_step lib b s GetHistorySpeeches = snd (get_history_speeches b s)"
| "play_step lib b s (InteractWithAI p c) = snd (interact_with_ai lib p c s)"

definition play_all :: "'x pylib \<Rightarrow> 'x backend_interface \<Rightarrow> play list \<Rightarrow> 'x st \<Rightarrow> 'x st" where
  "play_all lib b ps s = foldl (play_step lib b) s ps"

subsection \<open>Reading the log, and what a program keeps\<close>

fun is_backend_call :: "call \<Rightarrow> bool" where
  "is_backend_call (Generate p) = False"
| "is_backend_call c = True"

definition backend_calls :: "'x st \<Rightarrow> call list" where
  "backend_calls s = filter is_backend_call (calls (snd s))"

text \<open>\<open>keeps I m\<close>: whatever way \<open>m\<close> ends, a state in \<open>I\<close> is left in \<open>I\<close>.\<close>

definition keeps :: "('x st \<Rightarrow> bool) \<Rightarrow> ('a, 'x) prog \<Rightarrow> bool" where
  "keeps I m = (\<forall>s. I s \<longrightarrow> I (snd (m s)))"

text \<open>\<open>returns I m\<close>: from a state in \<open>I\<close>, \<open>m\<close> ends with a value, not an exception.\<close>

definition returns :: "('x st \<Rightarrow> bool) \<Rightarrow> ('a, 'x) prog \<Rightarrow> bool" where
  "returns I m = (\<forall>s. I s \<longrightarrow> (\<exists>v. fst (m s) = Inr v))"

text \<open>A model client that is missing, or that raises on every call.\<close>

definition no_model :: "'x agent \<Rightarrow> bool" where
  "no_model a =
     (case api_client a of
        None \<Rightarrow> True
      | Some client \<Rightarrow> \<forall>p x. \<exists>e. fst (client p x) = Inl e)"

subsection \<open>Collaborators for concrete runs\<close>

text \<open>
  A backend that answers every call and counts the calls in the outside state, one that
  raises on every call, a model client that raises, one that gives a fixed reply, and a
  random source that picks the index from the outside state.
\<close>

definition stub_backend :: "game_state \<Rightarrow> nat backend_interface" where
  "stub_backend st =
     \<lparr>get_speech_history = (\<lambda>pid x. (Inr [], Suc x)),
      get_game_state = (\<lambda>pid x. (Inr st, Suc x)),
      submit_speech = (\<lambda>pid c x. (Inr (), Suc x)),
      submit_vote = (\<lambda>pid t x. (Inr (), Suc x)),
      update_agent_action = (\<lambda>pid r x. (Inr (), Suc x)),
      werewolf_kill = (\<lambda>pid t x. (Inr (), Suc x)),
      witch_save = (\<lambda>pid t x. (Inr (), Suc x)),
      witch_poison = (\<lambda>pid t x. (Inr (), Suc x)),
      seer_check = (\<lambda>pid t x. (Inr ''werewolf'', Suc x)),
      hunter_shoot = (\<lambda>pid t x. (Inr (), Suc x))\<rparr>"

definition down :: "nat \<Rightarrow> (exn + 'a) \<times> nat" where
  "down x = (Inl (Exception ''backend down''), Suc x)"

definition down_backend :: "nat backend_interface" where
  "down_backend =
     \<lparr>get_speech_history = (\<lambda>pid. down),
      get_game_state = (\<lambda>pid. down),
      submit_speech = (\<lambda>pid c. down),
      submit_vote = (\<lambda>pid t. down),
      update_agent_action = (\<lambda>pid r. down),
      werewolf_kill = (\<lambda>pid t. down),
      witch_save = (\<lambda>pid t. down),
      witch_poison = (\<lambda>pid t. down),
      seer_check = (\<lambda>pid t. down),
      hunter_shoot = (\<lambda>pid t. down)\<rparr>"

definition stub_lib :: "nat pylib" where
  "stub_lib = \<lparr>json_dumps = (\<lambda>r pid kb c. Inr ''{}''), randbelow = (\<lambda>n x. (x mod n, x))\<rparr>"

definition failing_client :: "string \<Rightarrow> nat \<Rightarrow> (exn + string) \<times> nat" where
  "failing_client p x = (Inl (Exception ''model down''), Suc x)"

definition scripted_client :: "string \<Rightarrow> string \<Rightarrow> nat \<Rightarrow> (exn + string) \<times> nat" where
  "scripted_client reply p x = (Inr reply, Suc x)"

definition world0 :: "nat world" where
  "world0 = \<lparr>outside = 0, calls = []\<rparr>"

definition day_state :: game_state where
  "day_state =
     \<lparr>gs_phase = Some ''day'', gs_round = Some 2, gs_alive_players = Some [1, 2, 3, 5],
      gs_death_info = Some [\<lparr>d_player_id = 4, d_round = 1, d_cause = ''killed''\<rparr>]\<rparr>"

text \<open>The knowledge base after a fetch that returned \<open>st\<close>, as the four assignments leave it.\<close>

definition refreshed :: "game_state \<Rightarrow> knowledge_base \<Rightarrow> knowledge_base" where
  "refreshed st kb =
     kb\<lparr>game_phase := gs_phase st,
        current_round := (case gs_round st of None \<Rightarrow> 0 | Some r \<Rightarrow> r),
        alive_players := Some (case gs_alive_players st of None \<Rightarrow> [] | Some ps \<Rightarrow> ps),
        death_info := (case gs_death_info st of None \<Rightarrow> [] | Some ds \<Rightarrow> ds)\<rparr>"

text \<open>An agent that has cached a phase, a round and a roster.\<close>

definition cached_agent :: "nat agent" where
  "cached_agent =
     (init 3 SEER None)\<lparr>knowledge_base :=
        \<lparr>game_phase = Some ''night'', current_round = 3, history_speeches = [],
         vote_history = [], death_info = [], alive_players = Some [1, 2, 3]\<rparr>\<rparr>"

text \<open>A backend that answers every call but the report of an action result.\<close>

definition unreported_backend :: "nat backend_interface" where
  "unreported_backend = (stub_backend day_state)\<lparr>update_agent_action := (\<lambda>pid r. down)\<rparr>"

text \<open>An agent whose cached roster is the empty list.\<close>

definition empty_roster_agent :: "nat agent" where
  "empty_roster_agent =
     (init 5 VILLAGER None)\<lparr>knowledge_base :=
        \<lparr>game_phase = None, current_round = 0, history_speeches = [],
         vote_history = [], death_info = [], alive_players = Some []\<rparr>\<rparr>"

text \<open>
  \<open>model_steady I\<close>: \<open>I\<close> does not look at the outside state nor at the model client's
  entries in the log. \<open>steady I\<close>: \<open>I\<close> does not look at the world at all, nor at the
  knowledge base and the vote target, and setting the skill latch keeps it.
\<close>

definition model_steady :: "('x st \<Rightarrow> bool) \<Rightarrow> bool" where
  "model_steady I =
     (\<forall>a w x p. I (a, w) \<longrightarrow>
        I (a, \<lparr>outside = x, calls = calls w @ [Generate p]\<rparr>) \<and> I (a, w\<lparr>outside := x\<rparr>))"

definition steady :: "('x st \<Rightarrow> bool) \<Rightarrow> bool" where
  "steady I =
     (\<forall>a w w' kb t. I (a, w) \<longrightarrow>
        I (a, w') \<and> I (a\<lparr>knowledge_base := kb\<rparr>, w') \<and> I (a\<lparr>vote_target := t\<rparr>, w')
        \<and> I (a\<lparr>skill_used := True\<rparr>, w'))"

text \<open>A call context in which the agent itself, player 1, is the only one alive.\<close>

definition lone_context :: ctx where
  "lone_context =
     \<lparr>c_player_id = Some 1, c_role = Some ''villager'', c_game_phase = Some None,
      c_speech_type = None, c_history = Some [], c_alive_players = Some [1],
      c_death_info = None\<rparr>"

section \<open>Properties\<close>

subsection \<open>Running the combinators\<close>

lemma pbind_ret [simp]: "pbind (ret v) f s = f v s"
  by (simp add: pbind_def ret_def)

lemma pbind_raise [simp]: "pbind (raise e) f s = (Inl e, s)"
  by (simp add: pbind_def raise_def)

lemma pbind_self [simp]: "pbind self f s = f (fst s) s"
  by (simp add: pbind_def self_def)

lemma pbind_set_self [simp]: "pbind (set_self g) f s = f () (g (fst s), snd s)"
  by (simp add: pbind_def set_self_def)

lemma pbind_lift_Inr [simp]: "pbind (lift (Inr v)) f s = f v s"
  by (simp add: pbind_def lift_def)

lemma pbind_lift_Inl [simp]: "pbind (lift (Inl e)) f s = (Inl e, s)"
  by (simp add: pbind_def lift_def)

lemma ret_apply [simp]: "ret v s = (Inr v, s)"
  by (simp add: ret_def)

lemma raise_apply [simp]: "raise e s = (Inl e, s)"
  by (simp add: raise_def)

lemma pbind_Inr: "m s = (Inr v, s') \<Longrightarrow> pbind m f s = f v s'"
  by (simp add: pbind_def)

lemma pbind_Inl: "m s = (Inl e, s') \<Longrightarrow> pbind m f s = (Inl e, s')"
  by (simp add: pbind_def)

lemma try_except_Inr: "m s = (Inr v, s') \<Longrightarrow> try_except m h s = (Inr v, s')"
  by (simp add: try_except_def)

lemma try_except_Inl: "m s = (Inl e, s') \<Longrightarrow> try_except m h s = h e s'"
  by (simp add: try_except_def)

text \<open>The definitions that a concrete run unfolds.\<close>

lemmas prog_eval = pbind_def try_except_def try_except_ValueError_def call_out_def self_def
  set_self_def set_kb_def lift_def ret_def raise_def

lemmas str_eval = split_def isspace_chr_def isdigit_def isdigit_chr_def isdecimal_chr_def
  py_int_def dec_value_def digit_val_def numbers_of_def lower_def lower_chr_def lower_table_def
  first_or_def

subsection \<open>A dead agent\<close>

text \<open>
  C1. An agent with \<open>is_alive = false\<close>, of any role, with any parameters, backend and
  model client: \<open>speak\<close> returns the empty string, \<open>vote\<close> returns -1 and \<open>use_skill\<close>
  returns a result with \<open>success = false\<close>; each leaves the agent and the world as they
  were, so the log of calls to the backend and the model client gets no entry.
\<close>

theorem dead_agent_inert:
  assumes "\<not> is_alive a"
  shows "speak lib b t (a, w) = (Inr [], (a, w))
       \<and> vote lib b tgt (a, w) = (Inr (- 1), (a, w))
       \<and> use_skill lib b p (a, w) = (Inr (skill_failed ''Cannot use skill''), (a, w))
       \<and> \<not> success (skill_failed ''Cannot use skill'' :: skill_result)"
  using assms by (simp add: speak_def vote_def use_skill_def skill_failed_def)

theorem dead_agent_inert_witness:
  "\<not> is_alive ((init 3 SEER (Some failing_client))\<lparr>is_alive := False\<rparr>)
   \<and> speak stub_lib (stub_backend day_state) ''normal''
        ((init 3 SEER (Some failing_client))\<lparr>is_alive := False\<rparr>, world0)
      = (Inr [], ((init 3 SEER (Some failing_client))\<lparr>is_alive := False\<rparr>, world0))
   \<and> vote stub_lib (stub_backend day_state) None
        ((init 3 SEER (Some failing_client))\<lparr>is_alive := False\<rparr>, world0)
      = (Inr (- 1), ((init 3 SEER (Some failing_client))\<lparr>is_alive := False\<rparr>, world0))
   \<and> use_skill stub_lib (stub_backend day_state) None
        ((init 3 SEER (Some failing_client))\<lparr>is_alive := False\<rparr>, world0)
      = (Inr (skill_failed ''Cannot use skill''),
         ((init 3 SEER (Some failing_client))\<lparr>is_alive := False\<rparr>, world0))
   \<and> calls (snd (snd (speak stub_lib (stub_backend day_state) ''normal''
        ((init 3 SEER (Some failing_client))\<lparr>is_alive := False\<rparr>, world0)))) = []"
  using dead_agent_inert [of "(init 3 SEER (Some failing_client))\<lparr>is_alive := False\<rparr>"
      stub_lib "stub_backend day_state" "''normal''" world0 None None]
  by (simp add: init_def world0_def)

subsection \<open>State refresh\<close>

lemma get_current_state_fetched:
  "get_game_state b (player_id a) (outside w) = (Inr st, x) \<Longrightarrow>
   get_current_state b (a, w) =
     (Inr st, (a\<lparr>knowledge_base := refreshed st (knowledge_base a)\<rparr>,
               \<lparr>outside = x, calls = calls w @ [GetGameState (player_id a)]\<rparr>))"
  by (simp add: get_current_state_def try_except_def pbind_def call_out_def set_kb_def
      set_self_def self_def refreshed_def)

lemma get_current_state_failed:
  "get_game_state b (player_id a) (outside w) = (Inl e, x) \<Longrightarrow>
   get_current_state b (a, w) =
     (Inr empty_game_state, (a, \<lparr>outside = x, calls = calls w @ [GetGameState (player_id a)]\<rparr>))"
  by (simp add: get_current_state_def try_except_def pbind_def call_out_def self_def)

text \<open>
  C5, as stated: after a successful fetch only values actually fetched overwrite
  knowledge-base fields, an absent field leaving its entry untouched. It fails: the agent
  below has cached the phase \<open>night\<close>, round 3 and the roster 1, 2, 3; the backend returns
  a state with no field at all, and the refresh replaces the three entries by \<open>None\<close>,
  0 and the empty roster.
\<close>

theorem refresh_drops_cached_values:
  "game_phase (knowledge_base cached_agent) = Some ''night''
   \<and> current_round (knowledge_base cached_agent) = 3
   \<and> alive_players (knowledge_base cached_agent) = Some [1, 2, 3]
   \<and> fst (get_current_state (stub_backend empty_game_state) (cached_agent, world0))
       = Inr empty_game_state
   \<and> gs_phase empty_game_state = None
   \<and> gs_round empty_game_state = None
   \<and> gs_alive_players empty_game_state = None
   \<and> game_phase (knowledge_base (fst (snd
        (get_current_state (stub_backend empty_game_state) (cached_agent, world0))))) = None
   \<and> current_round (knowledge_base (fst (snd
        (get_current_state (stub_backend empty_game_state) (cached_agent, world0))))) = 0
   \<and> alive_players (knowledge_base (fst (snd
        (get_current_state (stub_backend empty_game_state) (cached_agent, world0))))) = Some []"
  by (simp add: get_current_state_fetched [where st = empty_game_state and x = 1] refreshed_def
      cached_agent_def init_def stub_backend_def world0_def empty_game_state_def)

text \<open>
  C5, amended: a successful fetch overwrites each of the four entries phase, round, alive
  roster and death records with the fetched value, or with its default (\<open>None\<close>, 0, the
  empty list) when the state lacks the field, whatever was cached; the speech and vote
  histories and the agent's other fields stay; a failed fetch returns the empty state and
  leaves the agent, knowledge base included, as it was. The four entries are written
  together, on success only.
\<close>

theorem refresh_overwrites_with_defaults:
  "(get_game_state b (player_id a) (outside w) = (Inr st, x) \<longrightarrow>
      fst (get_current_state b (a, w)) = Inr st
      \<and> fst (snd (get_current_state b (a, w)))
          = a\<lparr>knowledge_base := refreshed st (knowledge_base a)\<rparr>
      \<and> game_phase (refreshed st (knowledge_base a)) = gs_phase st
      \<and> current_round (refreshed st (knowledge_base a))
          = (case gs_round st of None \<Rightarrow> 0 | Some r \<Rightarrow> r)
      \<and> alive_players (refreshed st (knowledge_base a))
          = Some (case gs_alive_players st of None \<Rightarrow> [] | Some ps \<Rightarrow> ps)
      \<and> death_info (refreshed st (knowledge_base a))
          = (case gs_death_info st of None \<Rightarrow> [] | Some ds \<Rightarrow> ds)
      \<and> history_speeches (refreshed st (knowledge_base a)) = history_speeches (knowledge_base a)
      \<and> vote_history (refreshed st (knowledge_base a)) = vote_history (knowledge_base a))
   \<and> (get_game_state b (player_id a) (outside w) = (Inl e, x) \<longrightarrow>
      fst (get_current_state b (a, w)) = Inr empty_game_state
      \<and> fst (snd (get_current_state b (a, w))) = a)"
  by (simp add: get_current_state_fetched get_current_state_failed refreshed_def)

theorem refresh_overwrites_with_defaults_witness:
  "get_game_state (stub_backend day_state) (player_id cached_agent) (outside world0)
     = (Inr day_state, 1)
   \<and> knowledge_base (fst (snd (get_current_state (stub_backend day_state) (cached_agent, world0))))
     = \<lparr>game_phase = Some ''day'', current_round = 2, history_speeches = [],
        vote_history = [],
        death_info = [\<lparr>d_player_id = 4, d_round = 1, d_cause = ''killed''\<rparr>],
        alive_players = Some [1, 2, 3, 5]\<rparr>
   \<and> get_game_state down_backend (player_id cached_agent) (outside world0)
     = (Inl (Exception ''backend down''), 1)
   \<and> fst (snd (get_current_state down_backend (cached_agent, world0))) = cached_agent"
  using refresh_overwrites_with_defaults
      [of "stub_backend day_state" cached_agent world0 day_state 1 "Exception ''backend down''"]
    refresh_overwrites_with_defaults
      [of down_backend cached_agent world0 day_state 1 "Exception ''backend down''"]
  by (simp add: stub_backend_def down_backend_def down_def world0_def day_state_def
      cached_agent_def init_def refreshed_def)

text \<open>
  C9. When the backend returns the same state to two refreshes in a row, the knowledge
  base after the second refresh is the one after the first.
\<close>

theorem refresh_idempotent:
  assumes "get_game_state b (player_id a) (outside w) = (Inr st, x1)"
    and "get_game_state b (player_id a) x1 = (Inr st, x2)"
  shows "knowledge_base (fst (snd (get_current_state b (snd (get_current_state b (a, w))))))
         = knowledge_base (fst (snd (get_current_state b (a, w))))"
  using assms by (simp add: get_current_state_fetched refreshed_def)

theorem refresh_idempotent_witness:
  "get_game_state (stub_backend day_state) (player_id cached_agent) (outside world0)
     = (Inr day_state, 1)
   \<and> get_game_state (stub_backend day_state) (player_id cached_agent) 1 = (Inr day_state, 2)
   \<and> knowledge_base (fst (snd (get_current_state (stub_backend day_state)
        (snd (get_current_state (stub_backend day_state) (cached_agent, world0))))))
     = knowledge_base (fst (snd (get_current_state (stub_backend day_state) (cached_agent, world0))))
   \<and> knowledge_base (fst (snd (get_current_state (stub_backend day_state) (cached_agent, world0))))
     \<noteq> knowledge_base cached_agent"
  using refresh_idempotent [of "stub_backend day_state" cached_agent world0 day_state 1 2]
  by (simp add: stub_backend_def world0_def day_state_def cached_agent_def init_def
      get_current_state_fetched [where st = day_state and x = 1] refreshed_def)

subsection \<open>update_status\<close>

text \<open>
  C10. For every agent and status dictionary, \<open>update_status\<close> changes at most
  \<open>is_alive\<close> and \<open>skill_used\<close>: the player id, the role, the vote target, the model
  client and the knowledge base are as before, the two flags take the dictionary's values
  where it has the key, and every other key is ignored (the dictionary cut down to the
  two keys has the same effect).
\<close>

theorem update_status_frame:
  "player_id (update_status m a) = player_id a
   \<and> role (update_status m a) = role a
   \<and> vote_target (update_status m a) = vote_target a
   \<and> api_client (update_status m a) = api_client a
   \<and> knowledge_base (update_status m a) = knowledge_base a
   \<and> is_alive (update_status m a) = (case m ''is_alive'' of None \<Rightarrow> is_alive a | Some v \<Rightarrow> v)
   \<and> skill_used (update_status m a)
       = (case m ''skill_used'' of None \<Rightarrow> skill_used a | Some v \<Rightarrow> v)
   \<and> update_status m a = update_status (m |` {''is_alive'', ''skill_used''}) a"
  by (simp add: update_status_def Let_def split: option.splits)

subsection \<open>The witch's reply\<close>

lemma int_each_decimal:
  "list_all (\<lambda>t. t \<noteq> [] \<and> list_all isdecimal_chr t) ts \<Longrightarrow> int_each ts = Inr (map dec_value ts)"
  by (induction ts) (simp_all add: py_int_def)

lemma parse_witch_decision_examples:
  "parse_witch_decision ''save 4'' = Inr (''save'', 4)"
  "parse_witch_decision ''poison 2 please'' = Inr (''poison'', 2)"
  "parse_witch_decision (''I'' @ [CHR 0x27] @ ''ll abstain'') = Inr (''abstain'', 0)"
  "parse_witch_decision ''save or poison?'' = Inr (''save'', 0)"
  by (simp_all add: parse_witch_decision_def str_eval)

text \<open>
  Where every token that \<open>isdigit\<close> accepts is made of decimal digits, the parse is the
  one described: \<open>save\<close> before \<open>poison\<close>, on the lower-cased reply, with the first such
  token as the target, 0 when there is none.
\<close>

lemma parse_witch_decision_decimal:
  assumes "list_all (list_all isdecimal_chr) (filter isdigit (split response))"
  shows "parse_witch_decision response =
           Inr (if str_in ''save'' (lower response)
                  then (''save'', first_or 0 (map dec_value (filter isdigit (split response))))
                else if str_in ''poison'' (lower response)
                  then (''poison'', first_or 0 (map dec_value (filter isdigit (split response))))
                else (''abstain'', 0))"
proof -
  have "list_all (\<lambda>t. t \<noteq> [] \<and> list_all isdecimal_chr t) (filter isdigit (split response))"
    using assms by (auto simp: list_all_iff isdigit_def)
  then have "numbers_of response = Inr (map dec_value (filter isdigit (split response)))"
    unfolding numbers_of_def by (rule int_each_decimal)
  then show ?thesis
    by (simp add: parse_witch_decision_def Let_def)
qed

text \<open>
  C7. For every reply the witch parse is to pair the keyword with the first all-digit
  token parsed as an integer. On the reply \<open>save 4\<close> followed by a blank and the
  superscript two (U+00B2) the first all-digit token is \<open>4\<close>, so the answer should be
  \<open>(save, 4)\<close>; the code converts every token that \<open>isdigit\<close> accepts, \<open>int\<close> rejects
  the superscript, and the ValueError leaves \<open>_parse_witch_decision\<close>, which unlike
  \<open>_parse_number_from_response\<close> (0 on the same reply) has no handler for it.
\<close>

theorem parse_witch_decision_raises:
  "parse_witch_decision (''save 4 '' @ [CHR 0xB2])
     = Inl (ValueError
         (''invalid literal for int() with base 10: '' @ [CHR 0x27, CHR 0xB2, CHR 0x27]))
   \<and> parse_number_from_response (''save 4 '' @ [CHR 0xB2]) = Inr 0"
  by (simp add: parse_witch_decision_def parse_number_from_response_def str_eval)

subsection \<open>act\<close>

text \<open>No exception leaves \<open>act\<close>.\<close>

lemma act_returns: "\<exists>r. fst (act lib b t kw s) = Inr r"
  by (simp add: act_def Let_def try_except_def act_failed_def split: prod.splits sum.splits)

text \<open>An exception of the action itself gives a failure result with its message.\<close>

lemma act_action_raises:
  assumes "act_dispatch lib b kw
             \<lparr>action_type = t, a_success = False, a_message = None, a_content = None,
              a_vote_target = None\<rparr> s = (Inl e, s')"
  shows "act lib b t kw s =
           (Inr \<lparr>action_type = t, a_success = False,
                a_message = Some (''Action failed: '' @ exn_str e), a_content = None,
                a_vote_target = None\<rparr>, s')"
  using assms by (simp add: act_def Let_def try_except_def pbind_def act_failed_def)

text \<open>
  C3. Every exception raised inside \<open>act\<close>, the one of \<open>update_agent_action\<close> after a
  completed action included, is to give a failure result (\<open>success = false\<close>) with the
  exception's message. The agent below votes for player 2 and the vote is submitted;
  the report of the result then raises. \<open>act\<close> catches the exception and writes the
  message \<open>Action failed: backend down\<close>, but the result keeps \<open>success = true\<close>: the
  handler sets the message only.
\<close>

theorem act_report_failure_keeps_success:
  "act stub_lib unreported_backend ''vote''
     \<lparr>kw_speech_type = None, kw_target_id = Some 2, kw_skill_params = None\<rparr>
     (init 3 SEER None, world0)
   = (Inr \<lparr>action_type = ''vote'', a_success = True,
          a_message = Some ''Action failed: backend down'', a_content = None,
          a_vote_target = Some 2\<rparr>,
      ((init 3 SEER None)\<lparr>vote_target := Some 2\<rparr>,
       \<lparr>outside = 2, calls = [SubmitVote 3 2,
          UpdateAgentAction 3 \<lparr>action_type = ''vote'', a_success = True, a_message = None,
             a_content = None, a_vote_target = Some 2\<rparr>]\<rparr>))"
  by (simp add: act_def act_dispatch_def vote_def act_failed_def prog_eval init_def world0_def
      unreported_backend_def stub_backend_def down_def)

subsection \<open>What the methods keep\<close>

text \<open>
  Rules for \<open>keeps\<close>, one for each way of building a program, then the methods: each keeps
  every steady property of the state, and asking the model keeps every property that is
  blind to the outside state and to the model client's log entries.
\<close>

lemma keepsI: "(\<And>s. I s \<Longrightarrow> I (snd (m s))) \<Longrightarrow> keeps I m"
  unfolding keeps_def by blast

lemma keepsD: "keeps I m \<Longrightarrow> I s \<Longrightarrow> I (snd (m s))"
  unfolding keeps_def by blast

lemma keeps_ret: "keeps I (ret v)"
  by (rule keepsI) simp

lemma keeps_raise: "keeps I (raise e)"
  by (rule keepsI) simp

lemma keeps_lift: "keeps I (lift r)"
  by (rule keepsI) (simp add: lift_def)

lemma keeps_self: "keeps I self"
  by (rule keepsI) (simp add: self_def)

lemma keeps_pbind:
  assumes m: "keeps I m" and f: "\<And>v. keeps I (f v)"
  shows "keeps I (pbind m f)"
proof (rule keepsI)
  fix s
  assume s: "I s"
  obtain r s' where ms: "m s = (r, s')" by (cases "m s")
  from keepsD [OF m s] ms have s': "I s'" by simp
  show "I (snd (pbind m f s))"
  proof (cases r)
    case (Inl e)
    with ms s' show ?thesis by (simp add: pbind_def)
  next
    case (Inr v)
    with ms keepsD [OF f s', of v] show ?thesis by (simp add: pbind_def)
  qed
qed

lemma keeps_try_except:
  assumes m: "keeps I m" and h: "\<And>e. keeps I (h e)"
  shows "keeps I (try_except m h)"
proof (rule keepsI)
  fix s
  assume s: "I s"
  obtain r s' where ms: "m s = (r, s')" by (cases "m s")
  from keepsD [OF m s] ms have s': "I s'" by simp
  show "I (snd (try_except m h s))"
  proof (cases r)
    case (Inl e)
    with ms keepsD [OF h s', of e] show ?thesis by (simp add: try_except_def)
  next
    case (Inr v)
    with ms s' show ?thesis by (simp add: try_except_def)
  qed
qed

lemma keeps_try_except_ValueError:
  assumes m: "keeps I m" and h: "keeps I h"
  shows "keeps I (try_except_ValueError m h)"
proof (rule keepsI)
  fix s
  assume s: "I s"
  obtain r s' where ms: "m s = (r, s')" by (cases "m s")
  from keepsD [OF m s] ms have s': "I s'" by simp
  from ms s' keepsD [OF h s'] show "I (snd (try_except_ValueError m h s))"
    by (simp add: try_except_ValueError_def split: sum.splits exn.splits)
qed

lemma keeps_if: "(c \<Longrightarrow> keeps I m) \<Longrightarrow> (\<not> c \<Longrightarrow> keeps I n) \<Longrightarrow> keeps I (if c then m else n)"
  by simp

lemma keeps_option: "(v = None \<Longrightarrow> keeps I m) \<Longrightarrow> (\<And>x. v = Some x \<Longrightarrow> keeps I (n x)) \<Longrightarrow> keeps I (case v of None \<Rightarrow> m | Some x \<Rightarrow> n x)"
  by (cases v) simp_all

lemma keeps_set_self: "(\<And>a w. I (a, w) \<Longrightarrow> I (g a, w)) \<Longrightarrow> keeps I (set_self g)"
  by (rule keepsI) (simp add: set_self_def)

lemma steadyD:
  "steady I \<Longrightarrow> I (a, w) \<Longrightarrow>
   I (a, w') \<and> I (a\<lparr>knowledge_base := kb\<rparr>, w') \<and> I (a\<lparr>vote_target := t\<rparr>, w')
   \<and> I (a\<lparr>skill_used := True\<rparr>, w')"
  unfolding steady_def by blast

lemma model_steadyD:
  "model_steady I \<Longrightarrow> I (a, w) \<Longrightarrow>
   I (a, \<lparr>outside = x, calls = calls w @ [Generate p]\<rparr>) \<and> I (a, w\<lparr>outside := x\<rparr>)"
  unfolding model_steady_def by blast

lemma keeps_set_kb: "steady I \<Longrightarrow> keeps I (set_kb g)"
  unfolding set_kb_def by (rule keeps_set_self) (blast dest: steadyD)

lemma keeps_call_out: "steady I \<Longrightarrow> keeps I (call_out c f)"
proof (rule keepsI)
  fix s :: "'a st"
  assume "steady I" and "I s"
  then have "\<And>w'. I (fst s, w')" by (metis steadyD prod.collapse)
  then show "I (snd (call_out c f s))"
    by (simp add: call_out_def split: prod.splits)
qed

lemma keeps_generate: "model_steady I \<Longrightarrow> keeps I (call_out (Generate p) f)"
proof (rule keepsI)
  fix s :: "'a st"
  assume "model_steady I" and "I s"
  then have "\<And>x. I (fst s, \<lparr>outside = x, calls = calls (snd s) @ [Generate p]\<rparr>)"
    by (metis model_steadyD prod.collapse)
  then show "I (snd (call_out (Generate p) f s))"
    by (simp add: call_out_def split: prod.splits)
qed

lemma keeps_random_choice: "model_steady I \<Longrightarrow> keeps I (random_choice lib xs)"
proof (rule keepsI)
  fix s :: "'a st"
  assume "model_steady I" and "I s"
  then have "\<And>x. I (fst s, (snd s)\<lparr>outside := x\<rparr>)"
    by (metis model_steadyD prod.collapse)
  then show "I (snd (random_choice lib xs s))"
    using \<open>I s\<close> by (simp add: random_choice_def split: prod.splits)
qed

lemma steady_model_steady: "steady I \<Longrightarrow> model_steady I"
  unfolding model_steady_def by (blast dest: steadyD)

lemmas keeps_intros = keeps_pbind keeps_try_except keeps_try_except_ValueError keeps_ret keeps_raise
  keeps_lift keeps_self keeps_if keeps_option keeps_generate keeps_random_choice

lemma keeps_index: "keeps I (index k v)"
  by (cases v) (simp_all add: index_def keeps_ret keeps_raise)

lemma keeps_simulate_ai_response:
  "model_steady I \<Longrightarrow> keeps I (simulate_ai_response lib prompt context)"
  unfolding simulate_ai_response_def Let_def by (intro keeps_intros) simp_all

lemma keeps_construct_full_prompt: "keeps I (construct_full_prompt lib prompt context)"
  unfolding construct_full_prompt_def by (intro keeps_intros)

lemma keeps_interact_with_ai:
  "model_steady I \<Longrightarrow> keeps I (interact_with_ai lib prompt context)"
  unfolding interact_with_ai_def
  by (intro keeps_intros keeps_simulate_ai_response keeps_construct_full_prompt) simp_all

lemma keeps_resolve_target:
  "model_steady I \<Longrightarrow> keeps I (resolve_target lib skill_params prompt)"
  unfolding resolve_target_def
  by (intro keeps_intros keeps_interact_with_ai) simp_all


lemma keeps_role:
  "keeps I m1 \<Longrightarrow> keeps I m2 \<Longrightarrow> keeps I m3 \<Longrightarrow> keeps I m4 \<Longrightarrow> keeps I m5 \<Longrightarrow>
   keeps I (case r of VILLAGER \<Rightarrow> m1 | WEREWOLF \<Rightarrow> m2 | WITCH \<Rightarrow> m3 | SEER \<Rightarrow> m4 | HUNTER \<Rightarrow> m5)"
  by (cases r) simp_all

lemma keeps_set_vote_target: "steady I \<Longrightarrow> keeps I (set_self (\<lambda>a. a\<lparr>vote_target := t\<rparr>))"
  by (rule keeps_set_self) (blast dest: steadyD)

lemma keeps_set_skill_used: "steady I \<Longrightarrow> keeps I (set_self (\<lambda>a. a\<lparr>skill_used := True\<rparr>))"
  by (rule keeps_set_self) (blast dest: steadyD)

lemmas keeps_steady = keeps_intros keeps_role keeps_index keeps_call_out keeps_set_kb
  keeps_set_vote_target keeps_set_skill_used

lemma keeps_get_history_speeches: "steady I \<Longrightarrow> keeps I (get_history_speeches b)"
  unfolding get_history_speeches_def by (intro keeps_steady) simp_all

lemma keeps_get_current_state: "steady I \<Longrightarrow> keeps I (get_current_state b)"
  unfolding get_current_state_def by (intro keeps_steady) simp_all

lemma keeps_construct_speech_prompt: "keeps I (construct_speech_prompt context)"
  unfolding construct_speech_prompt_def Let_def by (intro keeps_steady)

lemma keeps_construct_vote_prompt: "keeps I (construct_vote_prompt context)"
  unfolding construct_vote_prompt_def by (intro keeps_steady)

lemma keeps_parse_vote_decision: "model_steady I \<Longrightarrow> keeps I (parse_vote_decision lib r)"
  unfolding parse_vote_decision_def Let_def by (intro keeps_intros) simp_all

lemma keeps_speak: "steady I \<Longrightarrow> keeps I (speak lib b t)"
  unfolding speak_def Let_def
  by (intro keeps_steady keeps_get_current_state keeps_get_history_speeches
      keeps_construct_speech_prompt keeps_interact_with_ai steady_model_steady) simp_all

lemma keeps_vote: "steady I \<Longrightarrow> keeps I (vote lib b t)"
  unfolding vote_def Let_def
  by (intro keeps_steady keeps_construct_vote_prompt keeps_interact_with_ai
      keeps_parse_vote_decision steady_model_steady) simp_all

lemma keeps_use_werewolf_skill: "steady I \<Longrightarrow> keeps I (use_werewolf_skill lib b p)"
  unfolding use_werewolf_skill_def
  by (intro keeps_steady keeps_resolve_target steady_model_steady) simp_all

lemma keeps_use_seer_skill: "steady I \<Longrightarrow> keeps I (use_seer_skill lib b p)"
  unfolding use_seer_skill_def
  by (intro keeps_steady keeps_resolve_target steady_model_steady) simp_all

lemma keeps_use_hunter_skill: "steady I \<Longrightarrow> keeps I (use_hunter_skill lib b p)"
  unfolding use_hunter_skill_def
  by (intro keeps_steady keeps_resolve_target steady_model_steady) simp_all

lemma keeps_use_witch_skill: "steady I \<Longrightarrow> keeps I (use_witch_skill lib b p)"
  unfolding use_witch_skill_def Let_def
  by (intro keeps_steady keeps_interact_with_ai steady_model_steady) simp_all

lemma keeps_use_skill: "steady I \<Longrightarrow> keeps I (use_skill lib b p)"
  unfolding use_skill_def Let_def
  by (intro keeps_steady keeps_use_werewolf_skill keeps_use_witch_skill keeps_use_seer_skill
      keeps_use_hunter_skill) simp_all

lemma keeps_act_dispatch: "steady I \<Longrightarrow> keeps I (act_dispatch lib b kw result)"
  unfolding act_dispatch_def
  by (intro keeps_steady keeps_speak keeps_vote keeps_use_skill) simp_all

lemma keeps_act: "steady I \<Longrightarrow> keeps I (act lib b t kw)"
  unfolding act_def Let_def act_failed_def
  by (intro keeps_steady keeps_act_dispatch) simp_all

lemma keeps_play_step: "steady I \<Longrightarrow> I s \<Longrightarrow> I (play_step lib b s p)"
  by (cases p)
    (simp_all add: keepsD keeps_speak keeps_vote keeps_use_skill keeps_act
      keeps_get_current_state keeps_get_history_speeches keeps_interact_with_ai
      steady_model_steady)

lemma keeps_play_all: "steady I \<Longrightarrow> I s \<Longrightarrow> I (play_all lib b ps s)"
  unfolding play_all_def by (induction ps arbitrary: s) (simp_all add: keeps_play_step)


subsection \<open>The skill latch\<close>

lemma steady_skill_used: "steady (\<lambda>s. skill_used (fst s))"
  by (simp add: steady_def)

lemma use_skill_latched:
  "skill_used a \<Longrightarrow> use_skill lib b p (a, w) = (Inr (skill_failed ''Cannot use skill''), (a, w))"
  by (simp add: use_skill_def)

lemma use_skill_sets_latch:
  assumes "use_skill lib b p s = (Inr r, s')" and "success r"
  shows "skill_used (fst s')"
proof (cases "\<not> is_alive (fst s) \<or> skill_used (fst s)")
  case True
  with assms show ?thesis by (auto simp: use_skill_def skill_failed_def)
next
  case False
  with assms show ?thesis
    by (auto simp: use_skill_def Let_def pbind_def self_def set_self_def
        split: prod.splits sum.splits if_splits)
qed


text \<open>
  C2. With \<open>skill_used = true\<close>, \<open>use_skill\<close> returns the failure result whatever the
  role, the parameters, the backend and the model client, and calls nothing. When a call
  of \<open>use_skill\<close> returns \<open>success = true\<close>, \<open>skill_used\<close> is true afterwards, and after
  any normal play \<open>ps\<close> from there (any calls of the agent's methods other than
  \<open>update_status\<close>, on any backend) a further \<open>use_skill\<close> returns the failure result.
\<close>

theorem skill_latch:
  "(skill_used a \<longrightarrow>
      use_skill lib b p (a, w) = (Inr (skill_failed ''Cannot use skill''), (a, w))
      \<and> \<not> success (skill_failed ''Cannot use skill'' :: skill_result))
   \<and> (use_skill lib b p (a, w) = (Inr r, s') \<and> success r \<longrightarrow>
        skill_used (fst s')
        \<and> fst (use_skill lib2 b2 p2 (play_all lib1 b1 ps s'))
            = Inr (skill_failed ''Cannot use skill''))"
proof (intro conjI impI)
  assume "skill_used a"
  then show "use_skill lib b p (a, w) = (Inr (skill_failed ''Cannot use skill''), (a, w))"
    by (rule use_skill_latched)
next
  show "\<not> success (skill_failed ''Cannot use skill'' :: skill_result)"
    by (simp add: skill_failed_def)
next
  assume ok: "use_skill lib b p (a, w) = (Inr r, s') \<and> success r"
  then show latched: "skill_used (fst s')"
    by (blast intro: use_skill_sets_latch)
  then have "skill_used (fst (play_all lib1 b1 ps s'))"
    by (rule keeps_play_all [OF steady_skill_used])
  then show "fst (use_skill lib2 b2 p2 (play_all lib1 b1 ps s'))
              = Inr (skill_failed ''Cannot use skill'')"
    using use_skill_latched [of "fst (play_all lib1 b1 ps s')" lib2 b2 p2 "snd (play_all lib1 b1 ps s')"]
    by simp
qed

theorem skill_latch_witness:
  "skill_used ((init 5 SEER None)\<lparr>skill_used := True\<rparr>)
   \<and> use_skill stub_lib (stub_backend day_state) None
        ((init 5 SEER None)\<lparr>skill_used := True\<rparr>, world0)
      = (Inr (skill_failed ''Cannot use skill''),
         ((init 5 SEER None)\<lparr>skill_used := True\<rparr>, world0))
   \<and> use_skill stub_lib (stub_backend day_state) (Some \<lparr>p_action = None, p_target_id = Some 2\<rparr>)
        (init 5 SEER None, world0)
      = (Inr (skill_ok ''Seer checked player 2, result is werewolf'' None (Some ''werewolf'')),
         ((init 5 SEER None)\<lparr>skill_used := True\<rparr>, \<lparr>outside = 1, calls = [SeerCheck 5 2]\<rparr>))
   \<and> success (skill_ok ''Seer checked player 2, result is werewolf'' None (Some ''werewolf''))
   \<and> fst (use_skill stub_lib down_backend None
        (play_all stub_lib (stub_backend day_state) [GetCurrentState, Vote (Some 1), UseSkill None]
           ((init 5 SEER None)\<lparr>skill_used := True\<rparr>, \<lparr>outside = 1, calls = [SeerCheck 5 2]\<rparr>)))
      = Inr (skill_failed ''Cannot use skill'')"
proof -
  have run: "use_skill stub_lib (stub_backend day_state)
        (Some \<lparr>p_action = None, p_target_id = Some 2\<rparr>) (init 5 SEER None, world0)
      = (Inr (skill_ok ''Seer checked player 2, result is werewolf'' None (Some ''werewolf'')),
         ((init 5 SEER None)\<lparr>skill_used := True\<rparr>, \<lparr>outside = 1, calls = [SeerCheck 5 2]\<rparr>))"
    by (simp add: use_skill_def use_seer_skill_def resolve_target_def prog_eval init_def
        world0_def stub_backend_def skill_ok_def str_int_def str_nat.simps digit_chr_def)
  have ok: "success (skill_ok ''Seer checked player 2, result is werewolf'' None (Some ''werewolf''))"
    by (simp add: skill_ok_def)
  show ?thesis
    using run ok
      skill_latch [of "(init 5 SEER None)\<lparr>skill_used := True\<rparr>" stub_lib
        "stub_backend day_state" None world0]
      skill_latch [of "init 5 SEER None" stub_lib "stub_backend day_state"
        "Some \<lparr>p_action = None, p_target_id = Some 2\<rparr>" world0
        "skill_ok ''Seer checked player 2, result is werewolf'' None (Some ''werewolf'')"
        "((init 5 SEER None)\<lparr>skill_used := True\<rparr>, \<lparr>outside = 1, calls = [SeerCheck 5 2]\<rparr>)"
        stub_lib down_backend None stub_lib "stub_backend day_state"
        "[GetCurrentState, Vote (Some 1), UseSkill None]"]
    by (simp add: init_def)
qed

subsection \<open>The vote fallback\<close>

lemma numbers_of_no_token: "filter isdigit (split reply) = [] \<Longrightarrow> numbers_of reply = Inr []"
  by (simp add: numbers_of_def)


text \<open>
  C4, as stated: for a reply without an all-digit token the vote parse falls back to the
  roster 1 to 9 minus the agent's id when the cached roster is empty, and returns -1 only
  when no candidate remains. It fails: player 5 below has cached the empty roster, the
  default roster without 5 has eight candidates, and the parse returns -1.
\<close>

theorem vote_fallback_empty_roster:
  "filter isdigit (split ''I pass'') = []
   \<and> alive_players (knowledge_base empty_roster_agent) = Some []
   \<and> others (player_id empty_roster_agent) default_roster = [1, 2, 3, 4, 6, 7, 8, 9]
   \<and> fst (parse_vote_decision stub_lib ''I pass'' (empty_roster_agent, world0)) = Inr (- 1)"
  by (simp add: parse_vote_decision_def prog_eval str_eval
      others_def default_roster_def empty_roster_agent_def init_def)

text \<open>
  C4, amended: for a reply without an all-digit token, the roster is the cached one when
  the knowledge base has a roster entry (an empty one too), and the default 1 to 9 only
  when it has none (no successful refresh yet). The candidates are that roster without
  the agent's own id. With no candidate the parse returns -1 and changes nothing; else it
  returns the candidate at the index the random source gives, one of the candidates and
  never the agent itself, and only the random source's state moves. (That the pick is
  uniform is a property of the random source, outside this model.)
\<close>

theorem vote_fallback_roster:
  assumes "filter isdigit (split reply) = []"
  shows "(let roster = (case alive_players (knowledge_base a) of
                          None \<Rightarrow> default_roster | Some ps \<Rightarrow> ps);
              candidates = others (player_id a) roster;
              picked = randbelow lib (length candidates) (outside w)
          in if candidates = []
             then parse_vote_decision lib reply (a, w) = (Inr (- 1), (a, w))
             else parse_vote_decision lib reply (a, w)
                    = (Inr (candidates ! (fst picked mod length candidates)),
                       (a, w\<lparr>outside := snd picked\<rparr>))
                  \<and> candidates ! (fst picked mod length candidates) \<in> set candidates
                  \<and> candidates ! (fst picked mod length candidates) \<noteq> player_id a)"
proof -
  define candidates where
    "candidates = others (player_id a)
       (case alive_players (knowledge_base a) of None \<Rightarrow> default_roster | Some ps \<Rightarrow> ps)"
  define picked where "picked = randbelow lib (length candidates) (outside w)"
  have run: "parse_vote_decision lib reply (a, w) =
               (if candidates \<noteq> [] then random_choice lib candidates (a, w)
                else (Inr (- 1), (a, w)))"
    using numbers_of_no_token [OF assms]
    by (simp add: parse_vote_decision_def Let_def prog_eval candidates_def)
  have pick: "random_choice lib candidates (a, w) =
                (Inr (candidates ! (fst picked mod length candidates)),
                 (a, w\<lparr>outside := snd picked\<rparr>))"
    if "candidates \<noteq> []"
    using that by (simp add: random_choice_def picked_def split: prod.splits)
  have mem: "candidates ! (fst picked mod length candidates) \<in> set candidates"
    if "candidates \<noteq> []"
    using that by simp
  then have other: "candidates ! (fst picked mod length candidates) \<noteq> player_id a"
    if "candidates \<noteq> []"
    using that by (auto simp: candidates_def others_def)
  show ?thesis
    unfolding Let_def candidates_def [symmetric] picked_def [symmetric]
    using run pick mem other by simp
qed


theorem vote_fallback_roster_witness:
  "filter isdigit (split ''I pass'') = []
   \<and> parse_vote_decision stub_lib ''I pass'' (cached_agent, \<lparr>outside = 1, calls = []\<rparr>)
      = (Inr 2, (cached_agent, \<lparr>outside = 1, calls = []\<rparr>))
   \<and> parse_vote_decision stub_lib ''I pass'' (init 5 VILLAGER None, \<lparr>outside = 11, calls = []\<rparr>)
      = (Inr 4, (init 5 VILLAGER None, \<lparr>outside = 11, calls = []\<rparr>))
   \<and> parse_vote_decision stub_lib ''I pass'' (empty_roster_agent, world0)
      = (Inr (- 1), (empty_roster_agent, world0))"
  using vote_fallback_roster [of "''I pass''" cached_agent stub_lib "\<lparr>outside = 1, calls = []\<rparr>"]
    vote_fallback_roster [of "''I pass''" "init 5 VILLAGER None" stub_lib
      "\<lparr>outside = 11, calls = []\<rparr>"]
    vote_fallback_roster [of "''I pass''" empty_roster_agent stub_lib world0]
  by (simp add: str_eval cached_agent_def empty_roster_agent_def init_def others_def
      default_roster_def stub_lib_def world0_def)

subsection \<open>The hunter's target 0\<close>

lemma backend_calls_model_steady: "model_steady (\<lambda>s. backend_calls s = cs)"
  by (simp add: model_steady_def backend_calls_def)


text \<open>
  C8. An alive hunter with the latch open whose target resolves to 0, from
  \<open>skill_params\<close> or from the number parsed out of the model's reply: \<open>use_skill\<close> returns
  \<open>success = true\<close> (the hunter chose not to shoot) and makes no call to the backend, so
  none to \<open>hunter_shoot\<close>; the latch is set.
\<close>

theorem hunter_target_zero:
  assumes "is_alive a" and "\<not> skill_used a" and "role a = HUNTER"
    and "fst (resolve_target lib (case p of None \<Rightarrow> no_params | Some q \<Rightarrow> q) hunter_prompt (a, w))
           = Inr 0"
  shows "fst (use_skill lib b p (a, w)) = Inr (skill_ok ''Hunter chose not to shoot'' None None)
       \<and> success (skill_ok ''Hunter chose not to shoot'' None None)
       \<and> backend_calls (snd (use_skill lib b p (a, w))) = backend_calls (a, w)
       \<and> skill_used (fst (snd (use_skill lib b p (a, w))))"
proof -
  let ?q = "case p of None \<Rightarrow> no_params | Some q \<Rightarrow> q"
  obtain s1 where r: "resolve_target lib ?q hunter_prompt (a, w) = (Inr 0, s1)"
    using assms(4) by (cases "resolve_target lib ?q hunter_prompt (a, w)") simp
  have "backend_calls (snd (resolve_target lib ?q hunter_prompt (a, w))) = backend_calls (a, w)"
    by (rule keepsD [OF keeps_resolve_target [OF backend_calls_model_steady]]) simp
  with r have quiet: "backend_calls s1 = backend_calls (a, w)" by simp
  have "use_skill lib b p (a, w)
          = (Inr (skill_ok ''Hunter chose not to shoot'' None None),
             ((fst s1)\<lparr>skill_used := True\<rparr>, snd s1))"
    using assms(1-3) r
    by (simp add: use_skill_def use_hunter_skill_def Let_def pbind_Inr skill_ok_def)
  with quiet show ?thesis
    by (simp add: skill_ok_def backend_calls_def)
qed

theorem hunter_target_zero_witness:
  "is_alive (init 4 HUNTER (Some (scripted_client ''0'')))
   \<and> \<not> skill_used (init 4 HUNTER (Some (scripted_client ''0'')))
   \<and> role (init 4 HUNTER (Some (scripted_client ''0''))) = HUNTER
   \<and> fst (resolve_target stub_lib \<lparr>p_action = None, p_target_id = Some 0\<rparr> hunter_prompt
        (init 4 HUNTER (Some (scripted_client ''0'')), world0)) = Inr 0
   \<and> fst (resolve_target stub_lib no_params hunter_prompt
        (init 4 HUNTER (Some (scripted_client ''0'')), world0)) = Inr 0
   \<and> fst (use_skill stub_lib (stub_backend day_state)
        (Some \<lparr>p_action = None, p_target_id = Some 0\<rparr>)
        (init 4 HUNTER (Some (scripted_client ''0'')), world0))
      = Inr (skill_ok ''Hunter chose not to shoot'' None None)
   \<and> fst (use_skill stub_lib (stub_backend day_state) None
        (init 4 HUNTER (Some (scripted_client ''0'')), world0))
      = Inr (skill_ok ''Hunter chose not to shoot'' None None)
   \<and> backend_calls (snd (use_skill stub_lib (stub_backend day_state) None
        (init 4 HUNTER (Some (scripted_client ''0'')), world0))) = []"
proof -
  have given: "fst (resolve_target stub_lib \<lparr>p_action = None, p_target_id = Some 0\<rparr> hunter_prompt
        (init 4 HUNTER (Some (scripted_client ''0'')), world0)) = Inr 0"
    by (simp add: resolve_target_def)
  have parsed: "fst (resolve_target stub_lib no_params hunter_prompt
        (init 4 HUNTER (Some (scripted_client ''0'')), world0)) = Inr 0"
    by (simp add: resolve_target_def no_params_def interact_with_ai_def construct_full_prompt_def
        prog_eval init_def stub_lib_def scripted_client_def parse_number_from_response_def
        str_eval)
  show ?thesis
    using given parsed
      hunter_target_zero [of "init 4 HUNTER (Some (scripted_client ''0''))" stub_lib
        "Some \<lparr>p_action = None, p_target_id = Some 0\<rparr>" world0 "stub_backend day_state"]
      hunter_target_zero [of "init 4 HUNTER (Some (scripted_client ''0''))" stub_lib
        None world0 "stub_backend day_state"]
    by (simp add: init_def backend_calls_def world0_def)
qed

subsection \<open>Without a working model client\<close>

text \<open>Rules for \<open>returns\<close>, then the methods that end with a value whatever the world does.\<close>

lemma returnsI: "(\<And>s. I s \<Longrightarrow> \<exists>v. fst (m s) = Inr v) \<Longrightarrow> returns I m"
  unfolding returns_def by blast

lemma returnsD: "returns I m \<Longrightarrow> I s \<Longrightarrow> \<exists>v. fst (m s) = Inr v"
  unfolding returns_def by blast

lemma returns_ret: "returns I (ret v)"
  by (rule returnsI) simp

lemma returns_self: "returns I self"
  by (rule returnsI) (simp add: self_def)

lemma returns_set_self: "returns I (set_self g)"
  by (rule returnsI) (simp add: set_self_def)

lemma returns_set_kb: "returns I (set_kb g)"
  unfolding set_kb_def by (rule returns_set_self)

lemma returns_index: "returns I (index k (Some v))"
  by (simp add: index_def returns_ret)

lemma returns_pbind:
  assumes m: "returns I m" and k: "keeps I m" and f: "\<And>v. returns I (f v)"
  shows "returns I (pbind m f)"
proof (rule returnsI)
  fix s
  assume s: "I s"
  from returnsD [OF m s] obtain v s' where ms: "m s = (Inr v, s')"
    by (cases "m s") auto
  from keepsD [OF k s] ms have "I s'" by simp
  from returnsD [OF f this, of v] ms show "\<exists>v. fst (pbind m f s) = Inr v"
    by (simp add: pbind_def)
qed

lemma returns_try_except:
  assumes k: "keeps I m" and h: "\<And>e. returns I (h e)"
  shows "returns I (try_except m h)"
proof (rule returnsI)
  fix s
  assume s: "I s"
  obtain r s' where ms: "m s = (r, s')" by (cases "m s")
  from keepsD [OF k s] ms have s': "I s'" by simp
  show "\<exists>v. fst (try_except m h s) = Inr v"
  proof (cases r)
    case (Inl e)
    with ms returnsD [OF h s', of e] show ?thesis by (simp add: try_except_def)
  next
    case (Inr v)
    with ms show ?thesis by (simp add: try_except_def)
  qed
qed

lemma returns_if: "(c \<Longrightarrow> returns I m) \<Longrightarrow> (\<not> c \<Longrightarrow> returns I n) \<Longrightarrow> returns I (if c then m else n)"
  by simp

lemma returns_option:
  "(v = None \<Longrightarrow> returns I m) \<Longrightarrow> (\<And>x. v = Some x \<Longrightarrow> returns I (n x)) \<Longrightarrow>
   returns I (case v of None \<Rightarrow> m | Some x \<Rightarrow> n x)"
  by (cases v) simp_all

lemma returns_role:
  "returns I m1 \<Longrightarrow> returns I m2 \<Longrightarrow> returns I m3 \<Longrightarrow> returns I m4 \<Longrightarrow> returns I m5 \<Longrightarrow>
   returns I (case r of VILLAGER \<Rightarrow> m1 | WEREWOLF \<Rightarrow> m2 | WITCH \<Rightarrow> m3 | SEER \<Rightarrow> m4 | HUNTER \<Rightarrow> m5)"
  by (cases r) simp_all

lemma returns_random_choice: "xs \<noteq> [] \<Longrightarrow> returns I (random_choice lib xs)"
  by (rule returnsI) (simp add: random_choice_def split: prod.splits)

lemmas returns_intros = returns_pbind returns_try_except returns_ret returns_self returns_set_self
  returns_set_kb returns_index returns_if returns_option returns_role returns_random_choice

text \<open>Only ValueError leaves the conversions of a reply.\<close>

lemma int_each_ValueError: "int_each ts = Inl e \<Longrightarrow> \<exists>m. e = ValueError m"
  by (induction ts) (auto simp: py_int_def split: if_splits sum.splits)

lemma numbers_of_ValueError: "numbers_of r = Inl e \<Longrightarrow> \<exists>m. e = ValueError m"
  unfolding numbers_of_def by (rule int_each_ValueError)

lemma parse_number_from_response_returns: "\<exists>n. parse_number_from_response r = Inr n"
proof (cases "numbers_of r")
  case (Inl e)
  with numbers_of_ValueError [OF Inl] show ?thesis
    by (auto simp: parse_number_from_response_def)
next
  case (Inr ns)
  then show ?thesis by (simp add: parse_number_from_response_def)
qed

lemma steady_no_model: "steady (\<lambda>s. no_model (fst s))"
  by (simp add: steady_def no_model_def)

lemma returns_simulate_ai_response:
  "model_steady I \<Longrightarrow> returns I (simulate_ai_response lib prompt context)"
  unfolding simulate_ai_response_def Let_def
  by (intro returns_intros keeps_intros) simp_all

lemma returns_interact_with_ai:
  "model_steady I \<Longrightarrow> returns I (interact_with_ai lib prompt context)"
  unfolding interact_with_ai_def
  by (intro returns_intros keeps_intros returns_simulate_ai_response keeps_construct_full_prompt)
    simp_all


lemma returns_get_history_speeches: "steady I \<Longrightarrow> returns I (get_history_speeches b)"
  unfolding get_history_speeches_def
  by (intro returns_try_except returns_ret keeps_steady) simp_all

lemma returns_get_current_state: "steady I \<Longrightarrow> returns I (get_current_state b)"
  unfolding get_current_state_def
  by (intro returns_try_except returns_ret keeps_steady) simp_all

lemma returns_construct_speech_prompt:
  "c_game_phase c = Some ph \<Longrightarrow> c_alive_players c = Some ps \<Longrightarrow> c_speech_type c = Some t \<Longrightarrow>
   c_history c = Some h \<Longrightarrow> returns I (construct_speech_prompt c)"
  unfolding construct_speech_prompt_def Let_def
  by (simp add: index_def) (intro returns_intros keeps_intros)

lemma returns_construct_vote_prompt:
  "c_role c = Some r \<Longrightarrow> c_alive_players c = Some ps \<Longrightarrow> c_game_phase c = Some ph \<Longrightarrow>
   returns I (construct_vote_prompt c)"
  unfolding construct_vote_prompt_def
  by (simp add: index_def) (intro returns_intros keeps_intros)

lemma returns_numbers_guard:
  "returns I (try_except_ValueError
      (pbind (lift (numbers_of r))
         (\<lambda>numbers. ret (case numbers of [] \<Rightarrow> None | n # _ \<Rightarrow> Some n)))
      (ret None))"
proof (rule returnsI)
  fix s :: "'a st"
  show "\<exists>v. fst (try_except_ValueError
      (pbind (lift (numbers_of r))
         (\<lambda>numbers. ret (case numbers of [] \<Rightarrow> None | n # _ \<Rightarrow> Some n)))
      (ret None) s) = Inr v"
  proof (cases "numbers_of r")
    case (Inl e)
    with numbers_of_ValueError [OF Inl] show ?thesis
      by (auto simp: try_except_ValueError_def)
  next
    case (Inr ns)
    then show ?thesis by (simp add: try_except_ValueError_def)
  qed
qed

lemma returns_parse_vote_decision: "model_steady I \<Longrightarrow> returns I (parse_vote_decision lib r)"
  unfolding parse_vote_decision_def Let_def
  by (intro returns_intros returns_numbers_guard keeps_intros) simp_all

lemma returns_lift_parse_number: "returns I (lift (parse_number_from_response r))"
  using parse_number_from_response_returns [of r]
  by (auto simp: returns_def lift_def)

lemma returns_resolve_target: "model_steady I \<Longrightarrow> returns I (resolve_target lib p prompt)"
  unfolding resolve_target_def
  by (intro returns_intros returns_interact_with_ai returns_lift_parse_number
      keeps_intros keeps_interact_with_ai) simp_all

lemma returns_speak: "steady I \<Longrightarrow> returns I (speak lib b t)"
  unfolding speak_def Let_def
  by (intro returns_intros returns_get_current_state returns_get_history_speeches
      returns_construct_speech_prompt returns_interact_with_ai
      keeps_steady keeps_get_current_state keeps_get_history_speeches
      keeps_construct_speech_prompt keeps_interact_with_ai steady_model_steady) simp_all

lemma returns_vote: "steady I \<Longrightarrow> returns I (vote lib b t)"
  unfolding vote_def Let_def
  by (intro returns_intros returns_construct_vote_prompt returns_interact_with_ai
      returns_parse_vote_decision
      keeps_steady keeps_construct_vote_prompt keeps_interact_with_ai
      keeps_parse_vote_decision steady_model_steady) simp_all

lemma returns_use_werewolf_skill: "steady I \<Longrightarrow> returns I (use_werewolf_skill lib b p)"
  unfolding use_werewolf_skill_def
  by (intro returns_intros returns_resolve_target keeps_steady keeps_resolve_target
      steady_model_steady) simp_all

lemma returns_use_seer_skill: "steady I \<Longrightarrow> returns I (use_seer_skill lib b p)"
  unfolding use_seer_skill_def
  by (intro returns_intros returns_resolve_target keeps_steady keeps_resolve_target
      steady_model_steady) simp_all

lemma returns_use_hunter_skill: "steady I \<Longrightarrow> returns I (use_hunter_skill lib b p)"
  unfolding use_hunter_skill_def
  by (intro returns_intros returns_resolve_target keeps_steady keeps_resolve_target
      steady_model_steady) simp_all


lemma str_int_one: "str_int 1 = ''1''"
  by (simp add: str_int_def str_nat.simps digit_chr_def)

lemma simulate_ai_response_eq:
  "simulate_ai_response lib prompt context (a, w) =
     (let candidates = others (player_id a)
            (case c_alive_players context of None \<Rightarrow> default_roster | Some ps \<Rightarrow> ps);
          picked = randbelow lib (length candidates) (outside w)
      in (Inr (if str_in ''speech'' (lower prompt) \<or> str_in ''speak'' (lower prompt)
               then ''I am player '' @ str_int (player_id a) @ '', as a '' @ role_value (role a)
                    @ '', I think we need to carefully analyze the current situation.''
               else if str_in ''vote'' (lower prompt)
               then (if candidates = [] then ''1''
                     else str_int (candidates ! (fst picked mod length candidates)))
               else ''Based on the current situation, I choose to act.''),
          (a, if candidates = [] then w else w\<lparr>outside := snd picked\<rparr>)))"
  by (simp add: simulate_ai_response_def Let_def prog_eval random_choice_def str_int_one
      split: prod.splits)

lemma interact_with_ai_no_model:
  assumes "no_model a"
  shows "\<exists>w'. interact_with_ai lib prompt context (a, w)
                 = simulate_ai_response lib prompt context (a, w')
               \<and> backend_calls (a, w') = backend_calls (a, w)"
proof (cases "api_client a")
  case None
  then show ?thesis by (auto simp: interact_with_ai_def)
next
  case (Some client)
  with assms have fails: "\<And>p x. \<exists>e. fst (client p x) = Inl e"
    by (simp add: no_model_def)
  show ?thesis
  proof (cases "json_dumps lib (role_value (role a)) (player_id a) (knowledge_base a) context")
    case (Inl e)
    with Some show ?thesis
      by (auto simp: interact_with_ai_def construct_full_prompt_def prog_eval)
  next
    case (Inr dumped)
    let ?fp = "''Context: '' @ dumped @ ''\<newline>\<newline>Question: '' @ prompt"
    from fails [of ?fp "outside w"] obtain e x where "client ?fp (outside w) = (Inl e, x)"
      by (cases "client ?fp (outside w)") auto
    with Some Inr have "interact_with_ai lib prompt context (a, w)
        = simulate_ai_response lib prompt context
            (a, \<lparr>outside = x, calls = calls w @ [Generate ?fp]\<rparr>)"
      by (simp add: interact_with_ai_def construct_full_prompt_def prog_eval)
    then show ?thesis
      by (auto simp: backend_calls_def)
  qed
qed

lemma witch_prompt_plain:
  "\<not> str_in ''speech'' (lower witch_prompt) \<and> \<not> str_in ''speak'' (lower witch_prompt)
   \<and> \<not> str_in ''vote'' (lower witch_prompt)"
  by code_simp

lemma parse_witch_decision_simulated:
  "parse_witch_decision ''Based on the current situation, I choose to act.'' = Inr (''abstain'', 0)"
  by code_simp

lemma use_witch_skill_no_model:
  assumes "no_model a" and "p_action p = None"
  shows "\<exists>s1. use_witch_skill lib b p (a, w)
                = (Inr (skill_ok ''Witch chose not to use skill'' None None), s1)"
proof -
  from interact_with_ai_no_model [OF assms(1)] obtain w' where
    "interact_with_ai lib witch_prompt (get_skill_context a) (a, w)
       = simulate_ai_response lib witch_prompt (get_skill_context a) (a, w')"
    by blast
  then obtain s1 where
    "interact_with_ai lib witch_prompt (get_skill_context a) (a, w)
       = (Inr ''Based on the current situation, I choose to act.'', s1)"
    by (simp add: simulate_ai_response_eq witch_prompt_plain Let_def)
  with assms(2) show ?thesis
    by (simp add: use_witch_skill_def pbind_Inr parse_witch_decision_simulated
        try_except_def Let_def)
qed

lemma returns_use_witch_skill_given:
  "steady I \<Longrightarrow> p_action p = Some given \<Longrightarrow> returns I (use_witch_skill lib b p)"
  unfolding use_witch_skill_def Let_def
  by simp (intro returns_intros keeps_steady, simp_all)

lemma returns_use_witch_skill: "returns (\<lambda>s. no_model (fst s)) (use_witch_skill lib b p)"
proof (cases "p_action p")
  case None
  show ?thesis
  proof (rule returnsI)
    fix s :: "'a st"
    assume "no_model (fst s)"
    from use_witch_skill_no_model [OF this None, of lib b "snd s"]
    show "\<exists>v. fst (use_witch_skill lib b p s) = Inr v" by auto
  qed
next
  case (Some given)
  then show ?thesis
    by (rule returns_use_witch_skill_given [OF steady_no_model])
qed

lemma returns_use_skill: "returns (\<lambda>s. no_model (fst s)) (use_skill lib b p)"
  unfolding use_skill_def Let_def
  by (intro returns_intros returns_use_werewolf_skill returns_use_witch_skill
      returns_use_seer_skill returns_use_hunter_skill keeps_steady keeps_use_werewolf_skill
      keeps_use_witch_skill keeps_use_seer_skill keeps_use_hunter_skill steady_no_model)


text \<open>
  C6, as stated: the simulated response to a prompt containing \<open>vote\<close> is a random alive
  opponent's id as text. It fails where no opponent is left: player 1, with no model
  client and a context whose roster holds only player 1, gets the reply \<open>1\<close>, its own
  id; and a new agent 1 without a model client, asked to vote before any state refresh,
  votes for itself.
\<close>

theorem simulated_vote_names_self:
  "api_client (init 1 VILLAGER None :: nat agent) = None
   \<and> player_id (init 1 VILLAGER None :: nat agent) = 1
   \<and> str_in ''vote'' (lower ''Vote target:'')
   \<and> c_alive_players lone_context = Some [1]
   \<and> others 1 [1] = []
   \<and> fst (interact_with_ai stub_lib ''Vote target:'' lone_context (init 1 VILLAGER None, world0))
       = Inr ''1''
   \<and> fst (vote stub_lib (stub_backend day_state) None (init 1 VILLAGER None, world0)) = Inr 1"
proof -
  have reply: "api_client (init 1 VILLAGER None :: nat agent) = None
     \<and> player_id (init 1 VILLAGER None :: nat agent) = 1
     \<and> str_in ''vote'' (lower ''Vote target:'')
     \<and> c_alive_players lone_context = Some [1]
     \<and> others 1 [1] = []
     \<and> fst (interact_with_ai stub_lib ''Vote target:'' lone_context (init 1 VILLAGER None, world0))
         = Inr ''1''"
    by (simp add: interact_with_ai_def simulate_ai_response_eq lone_context_def init_def
        others_def str_eval)
  have run: "fst (vote stub_lib (stub_backend day_state) None (init 1 VILLAGER None, world0)) = Inr 1"
    by code_simp
  from reply run show ?thesis by blast
qed

text \<open>
  C6, amended: for an agent whose model client is missing or raises on every call,
  \<open>speak\<close>, \<open>vote\<close> and \<open>use_skill\<close> end with a value, never with an exception, on every
  backend; the reply of \<open>interact_with_ai\<close> is the simulated response (computed after the
  failed call, which adds no backend call), and the simulated response is chosen from the
  caller's prompt, lower-cased: with \<open>speech\<close> or \<open>speak\<close> in it, the canned sentence
  naming the player and the role; else, with \<open>vote\<close> in it, the text of an id picked by
  the random source from the context's roster (the default 1 to 9 when the context has
  none) without the agent's own id, and the text \<open>1\<close> when that list is empty; else the
  generic statement.
\<close>

theorem model_failure_simulated:
  assumes "no_model a"
  shows "(\<exists>v. fst (speak lib b t (a, w)) = Inr v)
       \<and> (\<exists>v. fst (vote lib b tgt (a, w)) = Inr v)
       \<and> (\<exists>r. fst (use_skill lib b p (a, w)) = Inr r)
       \<and> (\<exists>w'. interact_with_ai lib prompt context (a, w)
                  = simulate_ai_response lib prompt context (a, w')
                \<and> backend_calls (a, w') = backend_calls (a, w))
       \<and> fst (simulate_ai_response lib prompt context (a, w)) =
           (let candidates = others (player_id a)
                  (case c_alive_players context of None \<Rightarrow> default_roster | Some ps \<Rightarrow> ps);
                picked = randbelow lib (length candidates) (outside w)
            in Inr (if str_in ''speech'' (lower prompt) \<or> str_in ''speak'' (lower prompt)
                    then ''I am player '' @ str_int (player_id a) @ '', as a ''
                         @ role_value (role a)
                         @ '', I think we need to carefully analyze the current situation.''
                    else if str_in ''vote'' (lower prompt)
                    then (if candidates = [] then ''1''
                          else str_int (candidates ! (fst picked mod length candidates)))
                    else ''Based on the current situation, I choose to act.''))"
proof (intro conjI)
  from assms have I: "no_model (fst (a, w))" by simp
  show "\<exists>v. fst (speak lib b t (a, w)) = Inr v"
    by (rule returnsD [OF returns_speak [OF steady_no_model] I])
  show "\<exists>v. fst (vote lib b tgt (a, w)) = Inr v"
    by (rule returnsD [OF returns_vote [OF steady_no_model] I])
  show "\<exists>r. fst (use_skill lib b p (a, w)) = Inr r"
    by (rule returnsD [OF returns_use_skill I])
  show "\<exists>w'. interact_with_ai lib prompt context (a, w)
                = simulate_ai_response lib prompt context (a, w')
              \<and> backend_calls (a, w') = backend_calls (a, w)"
    by (rule interact_with_ai_no_model [OF assms])
  show "fst (simulate_ai_response lib prompt context (a, w)) =
           (let candidates = others (player_id a)
                  (case c_alive_players context of None \<Rightarrow> default_roster | Some ps \<Rightarrow> ps);
                picked = randbelow lib (length candidates) (outside w)
            in Inr (if str_in ''speech'' (lower prompt) \<or> str_in ''speak'' (lower prompt)
                    then ''I am player '' @ str_int (player_id a) @ '', as a ''
                         @ role_value (role a)
                         @ '', I think we need to carefully analyze the current situation.''
                    else if str_in ''vote'' (lower prompt)
                    then (if candidates = [] then ''1''
                          else str_int (candidates ! (fst picked mod length candidates)))
                    else ''Based on the current situation, I choose to act.''))"
    by (simp add: simulate_ai_response_eq Let_def)
qed

theorem model_failure_simulated_witness:
  "no_model (init 3 WITCH (Some failing_client))
   \<and> fst (speak stub_lib down_backend ''normal'' (init 3 WITCH (Some failing_client), world0))
       = Inr ''I am player 3, as a witch, I think we need to carefully analyze the current situation.''
   \<and> fst (vote stub_lib down_backend None (init 3 WITCH (Some failing_client), world0)) = Inr 1
   \<and> fst (use_skill stub_lib down_backend None (init 3 WITCH (Some failing_client), world0))
       = Inr (skill_ok ''Witch chose not to use skill'' None None)
   \<and> (\<exists>w'. interact_with_ai stub_lib ''Your vote?'' lone_context
                (init 3 WITCH (Some failing_client), world0)
              = simulate_ai_response stub_lib ''Your vote?'' lone_context
                  (init 3 WITCH (Some failing_client), w')
            \<and> backend_calls (init 3 WITCH (Some failing_client), w')
                = backend_calls (init 3 WITCH (Some failing_client), world0))
   \<and> fst (simulate_ai_response stub_lib ''Your vote?'' lone_context
        (init 3 WITCH (Some failing_client), world0)) = Inr ''1''"
proof -
  have broken: "no_model (init 3 WITCH (Some failing_client))"
    by (simp add: no_model_def init_def failing_client_def)
  have spoken: "fst (speak stub_lib down_backend ''normal''
        (init 3 WITCH (Some failing_client), world0))
      = Inr ''I am player 3, as a witch, I think we need to carefully analyze the current situation.''"
    by code_simp
  have voted: "fst (vote stub_lib down_backend None (init 3 WITCH (Some failing_client), world0))
      = Inr 1"
    by code_simp
  have skilled: "fst (use_skill stub_lib down_backend None
        (init 3 WITCH (Some failing_client), world0))
      = Inr (skill_ok ''Witch chose not to use skill'' None None)"
    by code_simp
  have picked: "fst (simulate_ai_response stub_lib ''Your vote?'' lone_context
        (init 3 WITCH (Some failing_client), world0)) = Inr ''1''"
    by code_simp
  from model_failure_simulated [OF broken, of stub_lib down_backend "''normal''" world0 None None
      "''Your vote?''" lone_context]
  have "\<exists>w'. interact_with_ai stub_lib ''Your vote?'' lone_context
                (init 3 WITCH (Some failing_client), world0)
              = simulate_ai_response stub_lib ''Your vote?'' lone_context
                  (init 3 WITCH (Some failing_client), w')
            \<and> backend_calls (init 3 WITCH (Some failing_client), w')
                = backend_calls (init 3 WITCH (Some failing_client), world0)"
    by blast
  with broken spoken voted skilled picked show ?thesis by blast
qed

end
